theory Spec2Isabelle
  imports Main "HOL-Library.Multiset"
begin

section \<open>The weblog models of coltrane-blog\<close>

text \<open>
  The repository holds two versions of one schema: \<^verbatim>\<open>src/models.py\<close> (the older one, with
  the manager \<^verbatim>\<open>EntryManager\<close>, \<^verbatim>\<open>comments_open\<close> and the \<^verbatim>\<open>tags\<close> property) and
  \<^verbatim>\<open>src/coltrane/models.py\<close> (the newer one).  The older classes keep their names
  (\<open>Entry\<close>, \<open>Link\<close>); the newer ones are prefixed with their package (\<open>coltrane_Entry\<close>,
  \<open>coltrane_Link\<close>).  A method of a model is named \<open>Class_method\<close>; the methods of the
  manager keep their names (\<open>live\<close>, \<open>drafts\<close>, \<open>most_commented\<close>).

  Everything the models call outside the two files is a parameter or a small model of the
  object-relational mapper: a table is the list of its rows, a queryset is the list of rows
  it evaluates to, an exception is a value of \<open>error\<close>.
\<close>

subsection \<open>Exceptions, time, settings\<close>

datatype error =
  IntegrityError | KeyError | DoesNotExist | AttributeError | PostFailed | OverflowError |
  ImportError

text \<open>
  A \<^verbatim>\<open>datetime\<close> is the number of microseconds since \<^verbatim>\<open>datetime.min\<close> (the first instant of
  year 1), a \<^verbatim>\<open>timedelta\<close> a number of microseconds.  Both types are bounded in Python:
  \<^verbatim>\<open>datetime.max\<close> is the last microsecond of year 9999, 3652059 days after
  \<^verbatim>\<open>datetime.min\<close>, and a \<^verbatim>\<open>timedelta\<close> has at most 999999999 days either way.
  \<^verbatim>\<open>datetime.timedelta(n)\<close> is \<open>n\<close> days, and \<^verbatim>\<open>d - t\<close> is the datetime \<^verbatim>\<open>t\<close> before \<^verbatim>\<open>d\<close>;
  each raises \<^verbatim>\<open>OverflowError\<close> when its result is out of range.
\<close>

type_synonym datetime = int

definition datetime_max :: datetime where
  "datetime_max = 3652059 * 86400000000 - 1"

definition timedelta :: "int \<Rightarrow> error + int" where
  "timedelta days =
     (if - 999999999 \<le> days \<and> days \<le> 999999999 then Inr (days * 86400000000)
      else Inl OverflowError)"

definition datetime_sub :: "datetime \<Rightarrow> int \<Rightarrow> error + datetime" where
  "datetime_sub d t =
     (if 0 \<le> d - t \<and> d - t \<le> datetime_max then Inr (d - t) else Inl OverflowError)"

definition date_of :: "datetime \<Rightarrow> int" where
  "date_of t = t div 86400000000"

record settings =
  COMMENTS_MODERATE_AFTER :: int
  DELICIOUS_USER :: string
  DELICIOUS_PASSWORD :: string
  DEFAULT_EXTERNAL_LINK_POST :: bool

subsection \<open>Python truth values\<close>

text \<open>\<^verbatim>\<open>if self.excerpt:\<close> on a nullable text field: \<^verbatim>\<open>None\<close> and the empty string are false.\<close>

fun truthy_text :: "string option \<Rightarrow> bool" where
  "truthy_text None = False"
| "truthy_text (Some s) = (s \<noteq> [])"

text \<open>\<^verbatim>\<open>not self.id\<close>, and the mapper's \<^verbatim>\<open>pk_set = bool(pk_val)\<close>: \<^verbatim>\<open>None\<close> and \<^verbatim>\<open>0\<close> are false.\<close>

fun pk_set :: "nat option \<Rightarrow> bool" where
  "pk_set None = False"
| "pk_set (Some k) = (k \<noteq> 0)"

subsection \<open>The mapper: saving a row\<close>

text \<open>
  \<^verbatim>\<open>Model.save()\<close> of the framework, which every \<^verbatim>\<open>save\<close> of the repository ends in through
  \<^verbatim>\<open>super(...).save()\<close>.  With a primary key set and a row of that key in the table it
  updates that row; otherwise it inserts a row, under the object's key when one is set and
  under a key the table hands out (larger than every key in use) when not, and stores that
  key in the object.  \<open>clash r obj\<close> says that row \<open>r\<close> and \<open>obj\<close> agree on the columns of a
  \<^verbatim>\<open>UNIQUE\<close> constraint of the table (\<^verbatim>\<open>unique=True\<close>, \<^verbatim>\<open>unique_together\<close>); the database then
  refuses the statement with \<^verbatim>\<open>IntegrityError\<close> and the table stays as it was.
\<close>

definition fresh_pk :: "('r \<Rightarrow> nat option) \<Rightarrow> 'r list \<Rightarrow> nat" where
  "fresh_pk get_id tbl =
     Suc (foldr (\<lambda>r m. case get_id r of None \<Rightarrow> m | Some k \<Rightarrow> max k m) tbl 0)"

definition Model_save ::
  "('r \<Rightarrow> nat option) \<Rightarrow> (nat option \<Rightarrow> 'r \<Rightarrow> 'r) \<Rightarrow> ('r \<Rightarrow> 'r \<Rightarrow> bool) \<Rightarrow>
   'r \<Rightarrow> 'r list \<Rightarrow> error + ('r \<times> 'r list)" where
  "Model_save get_id set_id clash obj tbl =
     (if pk_set (get_id obj) \<and> list_ex (\<lambda>r. get_id r = get_id obj) tbl
      then
        (if list_ex (\<lambda>r. get_id r \<noteq> get_id obj \<and> clash r obj) tbl
         then Inl IntegrityError
         else Inr (obj, map (\<lambda>r. if get_id r = get_id obj then obj else r) tbl))
      else
        (let obj' = (if pk_set (get_id obj) then obj
                     else set_id (Some (fresh_pk get_id tbl)) obj)
         in if list_ex (\<lambda>r. clash r obj') tbl
            then Inl IntegrityError
            else Inr (obj', tbl @ [obj'])))"

subsection \<open>The schema of \<^verbatim>\<open>src/models.py\<close>\<close>

text \<open>\<^verbatim>\<open>ENTRY_STATUS_CHOICES\<close>: the names of the values of \<^verbatim>\<open>status\<close>.\<close>

definition ENTRY_STATUS_CHOICES :: "(int \<times> string) list" where
  "ENTRY_STATUS_CHOICES = [(1, ''Live''), (2, ''Draft''), (3, ''Hidden'')]"

record Entry =
  id :: "nat option"
  author :: nat
  enable_comments :: bool
  pub_date :: datetime
  slug :: string
  title :: string
  status :: int
  body :: string
  body_html :: string
  excerpt :: "string option"
  excerpt_html :: "string option"
  categories :: "nat list"
  tag_list :: "string option"

record Link =
  id :: "nat option"
  enable_comments :: bool
  post_elsewhere :: bool
  posted_by :: nat
  pub_date :: datetime
  title :: string
  slug :: string
  description :: string
  description_html :: string
  via_name :: "string option"
  via_url :: "string option"
  tag_list :: "string option"
  url :: string

text \<open>
  \<^verbatim>\<open>Entry.comments_open\<close> and \<^verbatim>\<open>Link.comments_open\<close>; \<open>today\<close> is \<^verbatim>\<open>datetime.datetime.today()\<close>.
  \<^verbatim>\<open>and\<close> does not evaluate its right operand when \<^verbatim>\<open>enable_comments\<close> is false; when it
  is true, the \<^verbatim>\<open>timedelta\<close> is built, then subtracted from \<open>today\<close>, then compared.
\<close>

definition Entry_comments_open :: "settings \<Rightarrow> datetime \<Rightarrow> Entry \<Rightarrow> error + bool" where
  "Entry_comments_open conf today self =
     (if \<not> Entry.enable_comments self then Inr False
      else case timedelta (COMMENTS_MODERATE_AFTER conf) of
             Inl e \<Rightarrow> Inl e
           | Inr t \<Rightarrow> (case datetime_sub today t of
                         Inl e \<Rightarrow> Inl e
                       | Inr cutoff \<Rightarrow> Inr (cutoff \<le> Entry.pub_date self)))"

definition Link_comments_open :: "settings \<Rightarrow> datetime \<Rightarrow> Link \<Rightarrow> error + bool" where
  "Link_comments_open conf today self =
     (if \<not> Link.enable_comments self then Inr False
      else case timedelta (COMMENTS_MODERATE_AFTER conf) of
             Inl e \<Rightarrow> Inl e
           | Inr t \<Rightarrow> (case datetime_sub today t of
                         Inl e \<Rightarrow> Inl e
                       | Inr cutoff \<Rightarrow> Inr (cutoff \<le> Link.pub_date self)))"

subsection \<open>The tag store\<close>

datatype model_class = EntryModel | LinkModel

type_synonym entity_ref = "model_class \<times> nat option"

type_synonym tag_store = "entity_ref \<Rightarrow> string set"

text \<open>
  Modelled from the spec: the tag store.  \<^verbatim>\<open>Tag.objects.update_tags\<close> and
  \<^verbatim>\<open>Tag.objects.get_for_object\<close> belong to the tagging library, which is not among the
  repository's files.  The spec's contract: \<^verbatim>\<open>set_tags(entity_ref, labels)\<close> replaces the
  complete tag set for that entity, \<^verbatim>\<open>get_tags(entity_ref)\<close> is its set of labels; the
  association is keyed by entity type and entity id.
\<close>

definition update_tags :: "tag_store \<Rightarrow> entity_ref \<Rightarrow> string list \<Rightarrow> tag_store" where
  "update_tags ts ref labels = ts(ref := set labels)"

definition get_for_object :: "tag_store \<Rightarrow> entity_ref \<Rightarrow> string set" where
  "get_for_object ts ref = ts ref"

text \<open>The \<^verbatim>\<open>tags\<close> property of \<^verbatim>\<open>Entry\<close> and \<^verbatim>\<open>Link\<close>: \<^verbatim>\<open>_get_tags\<close> and \<^verbatim>\<open>_set_tags\<close>.\<close>

definition Entry_get_tags :: "Entry \<Rightarrow> tag_store \<Rightarrow> string set" where
  "Entry_get_tags self ts = get_for_object ts (EntryModel, Entry.id self)"

definition Entry_set_tags :: "Entry \<Rightarrow> string list \<Rightarrow> tag_store \<Rightarrow> tag_store" where
  "Entry_set_tags self labels ts = update_tags ts (EntryModel, Entry.id self) labels"

definition Link_get_tags :: "Link \<Rightarrow> tag_store \<Rightarrow> string set" where
  "Link_get_tags self ts = get_for_object ts (LinkModel, Link.id self)"

definition Link_set_tags :: "Link \<Rightarrow> string list \<Rightarrow> tag_store \<Rightarrow> tag_store" where
  "Link_set_tags self labels ts = update_tags ts (LinkModel, Link.id self) labels"

subsection \<open>The database of \<^verbatim>\<open>src/models.py\<close>\<close>

text \<open>
  A row of a comment table (\<^verbatim>\<open>FreeComment\<close> or \<^verbatim>\<open>Comment\<close> of the framework's comments
  application), with the three columns the ranking query reads.
\<close>

record comment =
  content_type_id :: nat
  object_id :: nat
  is_public :: bool

record database =
  entry_table :: "Entry list"
  link_table :: "Link list"
  tagged_items :: tag_store
  freecomment_table :: "comment list"
  comment_table :: "comment list"
  entry_content_type :: nat

subsection \<open>\<^verbatim>\<open>Entry.save\<close> and \<^verbatim>\<open>Link.save\<close> of \<^verbatim>\<open>src/models.py\<close>\<close>

text \<open>\<^verbatim>\<open>unique_together = (('slug', 'pub_date'),)\<close>, and for \<^verbatim>\<open>Link\<close> also \<^verbatim>\<open>unique=True\<close> on \<^verbatim>\<open>url\<close>.\<close>

definition Entry_unique :: "Entry \<Rightarrow> Entry \<Rightarrow> bool" where
  "Entry_unique r obj =
     (Entry.slug r = Entry.slug obj \<and> Entry.pub_date r = Entry.pub_date obj)"

definition Link_unique :: "Link \<Rightarrow> Link \<Rightarrow> bool" where
  "Link_unique r obj =
     (Link.url r = Link.url obj \<or>
      (Link.slug r = Link.slug obj \<and> Link.pub_date r = Link.pub_date obj))"

text \<open>
  \<open>apply_markup_filter\<close> is \<^verbatim>\<open>utils.apply_markup_filter\<close>, the markup renderer;
  \<open>parse_tag_input\<close> is how the tagging library reads the \<^verbatim>\<open>tag_list\<close> column into labels.
\<close>

definition Entry_save ::
  "(string \<Rightarrow> string) \<Rightarrow> (string option \<Rightarrow> string list) \<Rightarrow> Entry \<Rightarrow> database \<Rightarrow>
   error + (Entry \<times> database)" where
  "Entry_save apply_markup_filter parse_tag_input self db =
     (let self1 = (if truthy_text (Entry.excerpt self)
                   then self\<lparr>Entry.excerpt_html :=
                          map_option apply_markup_filter (Entry.excerpt self)\<rparr>
                   else self);
          self2 = self1\<lparr>Entry.body_html := apply_markup_filter (Entry.body self1)\<rparr>
      in case Model_save Entry.id (\<lambda>k r. r\<lparr>Entry.id := k\<rparr>) Entry_unique self2
                (entry_table db) of
           Inl e \<Rightarrow> Inl e
         | Inr (self3, tbl) \<Rightarrow>
             Inr (self3,
                  db\<lparr>entry_table := tbl,
                     tagged_items :=
                       Entry_set_tags self3 (parse_tag_input (Entry.tag_list self3))
                         (tagged_items db)\<rparr>))"

text \<open>
  A call of \<^verbatim>\<open>pydelicious.add\<close>: user, password, url, title, tags.  \<open>pydelicious\<close> is the
  library of the bookmarking service: \<open>None\<close> when it cannot be imported, else its function
  \<^verbatim>\<open>add\<close>, which returns or raises.  \<^verbatim>\<open>import pydelicious\<close> stands before the \<^verbatim>\<open>try\<close>, so
  an \<^verbatim>\<open>ImportError\<close> leaves \<^verbatim>\<open>save\<close>; \<^verbatim>\<open>try: ... except: pass\<close> turns either outcome of the
  call into normal completion.
\<close>

type_synonym delicious_call = "string \<times> string \<times> string \<times> string \<times> string option"

definition try_except_pass :: "error + unit \<Rightarrow> error + unit" where
  "try_except_pass r = (case r of Inl e \<Rightarrow> Inr () | Inr u \<Rightarrow> Inr u)"

text \<open>
  \<^verbatim>\<open>Link.save\<close> returns the calls it made to the service (made whatever the database says
  afterwards) and the outcome of the save.
\<close>

definition Link_save ::
  "(delicious_call \<Rightarrow> error + unit) option \<Rightarrow> (string \<Rightarrow> string) \<Rightarrow>
   (string option \<Rightarrow> string list) \<Rightarrow> settings \<Rightarrow> Link \<Rightarrow> database \<Rightarrow>
   delicious_call list \<times> (error + (Link \<times> database))" where
  "Link_save pydelicious apply_markup_filter parse_tag_input conf self db =
     (let attempted = (\<not> pk_set (Link.id self) \<and> Link.post_elsewhere self);
          call = (DELICIOUS_USER conf, DELICIOUS_PASSWORD conf, Link.url self,
                  Link.title self, Link.tag_list self);
          posted = (if attempted
                    then (case pydelicious of
                            None \<Rightarrow> Inl ImportError
                          | Some add \<Rightarrow> try_except_pass (add call))
                    else Inr ())
      in (if attempted \<and> pydelicious \<noteq> None then [call] else [],
          case posted of
            Inl e \<Rightarrow> Inl e
          | Inr u \<Rightarrow>
              (let self1 = self\<lparr>Link.description_html :=
                                  apply_markup_filter (Link.description self)\<rparr>
               in case Model_save Link.id (\<lambda>k r. r\<lparr>Link.id := k\<rparr>) Link_unique self1
                         (link_table db) of
                    Inl e \<Rightarrow> Inl e
                  | Inr (self2, tbl) \<Rightarrow>
                      Inr (self2,
                           db\<lparr>link_table := tbl,
                              tagged_items :=
                                Link_set_tags self2 (parse_tag_input (Link.tag_list self2))
                                  (tagged_items db)\<rparr>))))"

subsection \<open>\<^verbatim>\<open>EntryManager\<close>\<close>

text \<open>
  A queryset of entries evaluates in the order of \<^verbatim>\<open>Meta.ordering = ['-pub_date']\<close>; rows
  of equal \<^verbatim>\<open>pub_date\<close> stay in table order (one of the orders the database may give).
\<close>

definition order_by_pub_date_desc :: "Entry list \<Rightarrow> Entry list" where
  "order_by_pub_date_desc rows = sort_key (\<lambda>e. - Entry.pub_date e) rows"

definition live :: "database \<Rightarrow> Entry list" where
  "live db = order_by_pub_date_desc (filter (\<lambda>e. Entry.status e = 1) (entry_table db))"

definition drafts :: "database \<Rightarrow> Entry list" where
  "drafts db = order_by_pub_date_desc (filter (\<lambda>e. Entry.status e = 2) (entry_table db))"

text \<open>
  The ranking query of \<^verbatim>\<open>most_commented\<close>: the public comments of the content type, grouped
  by \<^verbatim>\<open>object_id\<close>, each group with its size, largest first.  Groups of equal size stay
  in the order of their first comment (one of the orders the database may give).
\<close>

definition score_query :: "comment list \<Rightarrow> nat \<Rightarrow> (nat \<times> nat) list" where
  "score_query tbl ctype =
     (let hits = filter (\<lambda>c. content_type_id c = ctype \<and> is_public c) tbl
      in sort_key (\<lambda>row. - int (snd row))
           (map (\<lambda>i. (i, length (filter (\<lambda>c. object_id c = i) hits)))
              (remdups (map object_id hits))))"

text \<open>Python's \<^verbatim>\<open>xs[:num]\<close>: a negative \<^verbatim>\<open>num\<close> drops that many elements from the end.\<close>

definition slice_to :: "int \<Rightarrow> 'a list \<Rightarrow> 'a list" where
  "slice_to num xs =
     (if 0 \<le> num then take (nat num) xs else take (length xs - nat (- num)) xs)"

text \<open>
  \<^verbatim>\<open>in_bulk(id_list)\<close> of the mapper: the dictionary from primary key to object, for the keys
  of \<^verbatim>\<open>id_list\<close> that have a row.
\<close>

definition in_bulk :: "Entry list \<Rightarrow> nat list \<Rightarrow> (nat \<rightharpoonup> Entry)" where
  "in_bulk tbl id_list =
     map_of (List.map_filter
       (\<lambda>r. case Entry.id r of
               None \<Rightarrow> None
             | Some k \<Rightarrow> if k \<in> set id_list then Some (k, r) else None) tbl)"

text \<open>\<^verbatim>\<open>[entry_dict[entry_id] for entry_id in entry_ids]\<close>: a missing key raises \<^verbatim>\<open>KeyError\<close>.\<close>

fun getitems :: "(nat \<rightharpoonup> 'r) \<Rightarrow> nat list \<Rightarrow> error + 'r list" where
  "getitems d [] = Inr []"
| "getitems d (k # ks) =
     (case d k of
        None \<Rightarrow> Inl KeyError
      | Some r \<Rightarrow> (case getitems d ks of Inl e \<Rightarrow> Inl e | Inr rs \<Rightarrow> Inr (r # rs)))"

definition most_commented :: "database \<Rightarrow> int \<Rightarrow> bool \<Rightarrow> error + Entry list" where
  "most_commented db num free =
     (let tbl = (if free then freecomment_table db else comment_table db);
          entry_ids = map fst (slice_to num (score_query tbl (entry_content_type db)));
          entry_dict = in_bulk (entry_table db) entry_ids
      in getitems entry_dict entry_ids)"

text \<open>
  Creating an \<^verbatim>\<open>Entry\<close>: a field the caller does not pass takes its declared default
  (\<^verbatim>\<open>status\<close>: \<^verbatim>\<open>default=1\<close>).  The caller passes \<open>status_kw = None\<close> when it gives no status.
\<close>

definition Entry_init ::
  "datetime \<Rightarrow> nat \<Rightarrow> string \<Rightarrow> string \<Rightarrow> string \<Rightarrow> int option \<Rightarrow> Entry" where
  "Entry_init today author_kw slug_kw title_kw body_kw status_kw =
     \<lparr>Entry.id = None, author = author_kw, enable_comments = True, pub_date = today,
      slug = slug_kw, title = title_kw,
      status = (case status_kw of None \<Rightarrow> 1 | Some s \<Rightarrow> s),
      body = body_kw, body_html = [], excerpt = None, excerpt_html = None,
      categories = [], tag_list = None\<rparr>"

subsection \<open>The schema of \<^verbatim>\<open>src/coltrane/models.py\<close>\<close>

definition LIVE_STATUS :: int where
  "LIVE_STATUS = 1"

definition DRAFT_STATUS :: int where
  "DRAFT_STATUS = 2"

definition HIDDEN_STATUS :: int where
  "HIDDEN_STATUS = 3"

record coltrane_Entry =
  id :: "nat option"
  author :: nat
  enable_comments :: bool
  featured :: bool
  pub_date :: datetime
  slug :: string
  status :: int
  title :: string
  body :: string
  body_html :: string
  excerpt :: "string option"
  excerpt_html :: "string option"
  categories :: "nat list"
  tags :: string

record coltrane_Link =
  id :: "nat option"
  enable_comments :: bool
  post_elsewhere :: bool
  posted_by :: nat
  pub_date :: datetime
  slug :: string
  title :: string
  description :: "string option"
  description_html :: "string option"
  via_name :: "string option"
  via_url :: "string option"
  tags :: string
  url :: string

text \<open>
  \<^verbatim>\<open>slug\<close> is declared \<^verbatim>\<open>unique_for_date='pub_date'\<close>.  The framework checks that option
  when a form is validated; it puts no constraint on the table and \<^verbatim>\<open>save\<close> does not look
  at it.  So the entry table has no \<^verbatim>\<open>UNIQUE\<close> constraint besides its key, and the link
  table has the one of \<^verbatim>\<open>url\<close> (\<^verbatim>\<open>unique=True\<close>).
\<close>

definition coltrane_Entry_unique :: "coltrane_Entry \<Rightarrow> coltrane_Entry \<Rightarrow> bool" where
  "coltrane_Entry_unique r obj = False"

definition coltrane_Link_unique :: "coltrane_Link \<Rightarrow> coltrane_Link \<Rightarrow> bool" where
  "coltrane_Link_unique r obj = (coltrane_Link.url r = coltrane_Link.url obj)"

text \<open>\<open>formatter\<close> is \<^verbatim>\<open>template_utils.markup.formatter\<close>, the markup renderer.\<close>

definition coltrane_Entry_save ::
  "(string \<Rightarrow> string) \<Rightarrow> coltrane_Entry \<Rightarrow> coltrane_Entry list \<Rightarrow>
   error + (coltrane_Entry \<times> coltrane_Entry list)" where
  "coltrane_Entry_save formatter self tbl =
     (let self1 = (if truthy_text (coltrane_Entry.excerpt self)
                   then self\<lparr>coltrane_Entry.excerpt_html :=
                          map_option formatter (coltrane_Entry.excerpt self)\<rparr>
                   else self);
          self2 = self1\<lparr>coltrane_Entry.body_html := formatter (coltrane_Entry.body self1)\<rparr>
      in Model_save coltrane_Entry.id (\<lambda>k r. r\<lparr>coltrane_Entry.id := k\<rparr>)
           coltrane_Entry_unique self2 tbl)"

text \<open>\<open>smart_str\<close> is the framework's conversion to a byte string.\<close>

definition coltrane_Link_save ::
  "(delicious_call \<Rightarrow> error + unit) option \<Rightarrow> (string \<Rightarrow> string) \<Rightarrow> (string \<Rightarrow> string) \<Rightarrow>
   settings \<Rightarrow> coltrane_Link \<Rightarrow> coltrane_Link list \<Rightarrow>
   delicious_call list \<times> (error + (coltrane_Link \<times> coltrane_Link list))" where
  "coltrane_Link_save pydelicious formatter smart_str conf self tbl =
     (let attempted =
            (\<not> pk_set (coltrane_Link.id self) \<and> coltrane_Link.post_elsewhere self);
          call = (DELICIOUS_USER conf, DELICIOUS_PASSWORD conf,
                  smart_str (coltrane_Link.url self), smart_str (coltrane_Link.title self),
                  Some (smart_str (coltrane_Link.tags self)));
          posted = (if attempted
                    then (case pydelicious of
                            None \<Rightarrow> Inl ImportError
                          | Some add \<Rightarrow> try_except_pass (add call))
                    else Inr ())
      in (if attempted \<and> pydelicious \<noteq> None then [call] else [],
          case posted of
            Inl e \<Rightarrow> Inl e
          | Inr u \<Rightarrow>
              (let self1 = (if truthy_text (coltrane_Link.description self)
                            then self\<lparr>coltrane_Link.description_html :=
                                   map_option formatter (coltrane_Link.description self)\<rparr>
                            else self)
               in Model_save coltrane_Link.id (\<lambda>k r. r\<lparr>coltrane_Link.id := k\<rparr>)
                    coltrane_Link_unique self1 tbl)))"

text \<open>
  \<^verbatim>\<open>get_next_by_pub_date(**kwargs)\<close> and \<^verbatim>\<open>get_previous_by_pub_date(**kwargs)\<close>, which the
  framework adds to a model for its date field: of the rows of the default manager
  (\<^verbatim>\<open>objects\<close>, every row) that pass the filter \<open>kwargs\<close> and lie after (before) \<open>self\<close> in
  the order of \<^verbatim>\<open>pub_date\<close>, then key, the nearest one; \<^verbatim>\<open>DoesNotExist\<close> is raised when there
  is none.  A comparison with a missing key is false, as with \<^verbatim>\<open>NULL\<close>.
\<close>

definition id_less :: "nat option \<Rightarrow> nat option \<Rightarrow> bool" where
  "id_less a b = (case a of None \<Rightarrow> False
                  | Some x \<Rightarrow> (case b of None \<Rightarrow> False | Some y \<Rightarrow> x < y))"

definition id_key :: "coltrane_Entry \<Rightarrow> nat" where
  "id_key r = (case coltrane_Entry.id r of None \<Rightarrow> 0 | Some k \<Rightarrow> k)"

definition get_next_or_previous_by_pub_date ::
  "bool \<Rightarrow> (coltrane_Entry \<Rightarrow> bool) \<Rightarrow> coltrane_Entry \<Rightarrow> coltrane_Entry list \<Rightarrow>
   error + coltrane_Entry" where
  "get_next_or_previous_by_pub_date is_next kwargs self tbl =
     (let later = (\<lambda>r. coltrane_Entry.pub_date self < coltrane_Entry.pub_date r \<or>
                        (coltrane_Entry.pub_date r = coltrane_Entry.pub_date self \<and>
                         id_less (coltrane_Entry.id self) (coltrane_Entry.id r)));
          earlier = (\<lambda>r. coltrane_Entry.pub_date r < coltrane_Entry.pub_date self \<or>
                          (coltrane_Entry.pub_date r = coltrane_Entry.pub_date self \<and>
                           id_less (coltrane_Entry.id r) (coltrane_Entry.id self)));
          q = (if is_next
               then sort_key coltrane_Entry.pub_date
                      (sort_key id_key (filter (\<lambda>r. kwargs r \<and> later r) tbl))
               else sort_key (\<lambda>r. - coltrane_Entry.pub_date r)
                      (sort_key (\<lambda>r. - int (id_key r))
                         (filter (\<lambda>r. kwargs r \<and> earlier r) tbl)))
      in case q of [] \<Rightarrow> Inl DoesNotExist | r # rs \<Rightarrow> Inr r)"

text \<open>
  \<^verbatim>\<open>Entry._next_previous_helper\<close>, \<^verbatim>\<open>get_next\<close> and \<^verbatim>\<open>get_previous\<close>.  The method is looked
  up by name: a direction other than \<^verbatim>\<open>next\<close> and \<^verbatim>\<open>previous\<close> names no method.
\<close>

definition coltrane_Entry_next_previous_helper ::
  "string \<Rightarrow> coltrane_Entry \<Rightarrow> coltrane_Entry list \<Rightarrow> error + coltrane_Entry" where
  "coltrane_Entry_next_previous_helper direction self tbl =
     (if direction = ''next''
      then get_next_or_previous_by_pub_date True
             (\<lambda>r. coltrane_Entry.status r = LIVE_STATUS) self tbl
      else if direction = ''previous''
      then get_next_or_previous_by_pub_date False
             (\<lambda>r. coltrane_Entry.status r = LIVE_STATUS) self tbl
      else Inl AttributeError)"

definition coltrane_Entry_get_next ::
  "coltrane_Entry \<Rightarrow> coltrane_Entry list \<Rightarrow> error + coltrane_Entry" where
  "coltrane_Entry_get_next self tbl = coltrane_Entry_next_previous_helper ''next'' self tbl"

definition coltrane_Entry_get_previous ::
  "coltrane_Entry \<Rightarrow> coltrane_Entry list \<Rightarrow> error + coltrane_Entry" where
  "coltrane_Entry_get_previous self tbl =
     coltrane_Entry_next_previous_helper ''previous'' self tbl"

text \<open>Creating a \<^verbatim>\<open>coltrane\<close> entry: \<^verbatim>\<open>status\<close> has \<^verbatim>\<open>default=LIVE_STATUS\<close>.\<close>

definition coltrane_Entry_init ::
  "datetime \<Rightarrow> nat \<Rightarrow> string \<Rightarrow> string \<Rightarrow> string \<Rightarrow> int option \<Rightarrow> coltrane_Entry" where
  "coltrane_Entry_init today author_kw slug_kw title_kw body_kw status_kw =
     \<lparr>coltrane_Entry.id = None, author = author_kw, enable_comments = True,
      featured = False, pub_date = today, slug = slug_kw,
      status = (case status_kw of None \<Rightarrow> LIVE_STATUS | Some s \<Rightarrow> s),
      title = title_kw, body = body_kw, body_html = [], excerpt = None,
      excerpt_html = None, categories = [], tags = []\<rparr>"

subsection \<open>What it means for an object to be stored\<close>

text \<open>The table holds \<open>obj\<close>, and every row under the key of \<open>obj\<close> is \<open>obj\<close>.\<close>

definition stored_as :: "('r \<Rightarrow> nat option) \<Rightarrow> 'r \<Rightarrow> 'r list \<Rightarrow> bool" where
  "stored_as get_id obj tbl =
     (obj \<in> set tbl \<and> (\<forall>r\<in>set tbl. get_id r = get_id obj \<longrightarrow> r = obj))"

subsection \<open>Notions used in the statements about rankings and neighbours\<close>

text \<open>
  The comment table that \<^verbatim>\<open>most_commented\<close> reads, the number of public comments of the
  content type on an object, and that number for an entry.
\<close>

definition comments_of :: "database \<Rightarrow> bool \<Rightarrow> comment list" where
  "comments_of db free = (if free then freecomment_table db else comment_table db)"

definition public_count :: "comment list \<Rightarrow> nat \<Rightarrow> nat \<Rightarrow> nat" where
  "public_count tbl ctype k =
     length (filter (\<lambda>c. content_type_id c = ctype \<and> is_public c \<and> object_id c = k) tbl)"

definition entry_count :: "comment list \<Rightarrow> nat \<Rightarrow> Entry \<Rightarrow> nat" where
  "entry_count tbl ctype e =
     (case Entry.id e of None \<Rightarrow> 0 | Some k \<Rightarrow> public_count tbl ctype k)"

text \<open>
  The cut-off of the moderation window, \<open>today\<close> less \<^verbatim>\<open>COMMENTS_MODERATE_AFTER\<close> days, is a
  datetime: that many days are a \<^verbatim>\<open>timedelta\<close>, and the difference lies between
  \<^verbatim>\<open>datetime.min\<close> and \<^verbatim>\<open>datetime.max\<close>.
\<close>

definition cutoff_representable :: "settings \<Rightarrow> datetime \<Rightarrow> bool" where
  "cutoff_representable conf today =
     (- 999999999 \<le> COMMENTS_MODERATE_AFTER conf \<and> COMMENTS_MODERATE_AFTER conf \<le> 999999999 \<and>
      0 \<le> today - COMMENTS_MODERATE_AFTER conf * 86400000000 \<and>
      today - COMMENTS_MODERATE_AFTER conf * 86400000000 \<le> datetime_max)"

text \<open>\<open>r\<close> comes after \<open>self\<close> in the order of \<^verbatim>\<open>pub_date\<close>, then key.\<close>

definition later_than :: "coltrane_Entry \<Rightarrow> coltrane_Entry \<Rightarrow> bool" where
  "later_than self r =
     (coltrane_Entry.pub_date self < coltrane_Entry.pub_date r \<or>
      (coltrane_Entry.pub_date r = coltrane_Entry.pub_date self \<and>
       id_less (coltrane_Entry.id self) (coltrane_Entry.id r)))"

subsection \<open>Sample collaborators and data\<close>

definition sample_markup :: "string \<Rightarrow> string" where
  "sample_markup s = ''<p>'' @ s @ ''</p>''"

definition sample_parse_tags :: "string option \<Rightarrow> string list" where
  "sample_parse_tags t = (case t of None \<Rightarrow> [] | Some s \<Rightarrow> [s])"

definition sample_database :: database where
  "sample_database =
     \<lparr>entry_table = [], link_table = [], tagged_items = (\<lambda>ref. {}),
      freecomment_table = [], comment_table = [], entry_content_type = 7\<rparr>"

definition sample_settings :: settings where
  "sample_settings =
     \<lparr>COMMENTS_MODERATE_AFTER = 30, DELICIOUS_USER = ''user'', DELICIOUS_PASSWORD = ''secret'',
      DEFAULT_EXTERNAL_LINK_POST = True\<rparr>"

definition failing_service :: "delicious_call \<Rightarrow> error + unit" where
  "failing_service call = Inl PostFailed"

definition working_service :: "delicious_call \<Rightarrow> error + unit" where
  "working_service call = Inr ()"

text \<open>4 November 2026, 739923 days after \<^verbatim>\<open>datetime.min\<close>, and entries of the day before.\<close>

definition sample_today :: datetime where
  "sample_today = 739923 * 86400000000"

definition sample_recent_entry :: Entry where
  "sample_recent_entry =
     Entry_init (sample_today - 86400000000) 1 ''recent'' ''Recent'' ''text'' None"

definition sample_entry :: coltrane_Entry where
  "sample_entry =
     (coltrane_Entry_init 100 1 ''first-post'' ''First'' ''hello'' None)
       \<lparr>coltrane_Entry.excerpt := Some ''x''\<rparr>"

definition sample_entry_saved :: coltrane_Entry where
  "sample_entry_saved =
     sample_entry\<lparr>coltrane_Entry.id := Some 1, coltrane_Entry.body_html := ''<p>hello</p>'',
                  coltrane_Entry.excerpt_html := Some ''<p>x</p>''\<rparr>"

definition sample_link :: coltrane_Link where
  "sample_link =
     \<lparr>coltrane_Link.id = None, enable_comments = True, post_elsewhere = True, posted_by = 1,
      pub_date = 100, slug = ''a-link'', title = ''A link'', description = Some ''d'',
      description_html = None, via_name = None, via_url = None, tags = ''t'',
      url = ''http://example.com/''\<rparr>"

definition sample_link_saved :: coltrane_Link where
  "sample_link_saved =
     sample_link\<lparr>coltrane_Link.id := Some 1,
                 coltrane_Link.description_html := Some ''<p>d</p>''\<rparr>"

definition sample_old_link :: Link where
  "sample_old_link =
     \<lparr>Link.id = None, enable_comments = True, post_elsewhere = True, posted_by = 1,
      pub_date = 100, title = ''A link'', slug = ''a-link'', description = ''d'',
      description_html = [], via_name = None, via_url = None, tag_list = None,
      url = ''http://example.com/''\<rparr>"

definition sample_recent_link :: Link where
  "sample_recent_link = sample_old_link\<lparr>Link.pub_date := sample_today - 86400000000\<rparr>"

text \<open>
  A database that holds a link with the slug and \<^verbatim>\<open>pub_date\<close> of \<open>sample_old_link\<close> under
  another \<^verbatim>\<open>url\<close>.
\<close>

definition sample_slug_taken :: database where
  "sample_slug_taken =
     sample_database\<lparr>link_table :=
       [sample_old_link\<lparr>Link.id := Some 1, Link.url := ''http://example.org/''\<rparr>]\<rparr>"

definition sample_old_entry :: Entry where
  "sample_old_entry = Entry_init 100 1 ''first-post'' ''First'' ''hello'' None"

definition entry_at :: "nat \<Rightarrow> datetime \<Rightarrow> int \<Rightarrow> Entry" where
  "entry_at k t st = (Entry_init t 1 ''post'' ''Post'' ''text'' (Some st))\<lparr>Entry.id := Some k\<rparr>"

definition sample_entries :: database where
  "sample_entries =
     sample_database\<lparr>entry_table :=
       [entry_at 1 100 1, entry_at 2 200 2, entry_at 3 300 1, entry_at 4 400 3]\<rparr>"

definition public_comments :: "nat \<Rightarrow> nat \<Rightarrow> comment list" where
  "public_comments k n =
     replicate n \<lparr>content_type_id = 7, object_id = k, is_public = True\<rparr>"

definition sample_ranking :: database where
  "sample_ranking =
     sample_database\<lparr>entry_table := [entry_at 1 100 1, entry_at 2 200 1, entry_at 3 300 1],
       freecomment_table :=
         public_comments 2 1 @ public_comments 3 3 @ public_comments 1 5 @
         replicate 6 \<lparr>content_type_id = 7, object_id = 2, is_public = False\<rparr>\<rparr>"

definition sample_orphan :: database where
  "sample_orphan =
     sample_database\<lparr>entry_table := [entry_at 1 100 1],
       freecomment_table := public_comments 1 1 @ public_comments 5 2\<rparr>"

definition coltrane_entry_at :: "nat \<Rightarrow> datetime \<Rightarrow> int \<Rightarrow> coltrane_Entry" where
  "coltrane_entry_at k t st =
     (coltrane_Entry_init t 1 ''post'' ''Post'' ''text'' (Some st))
       \<lparr>coltrane_Entry.id := Some k\<rparr>"

definition sample_timeline :: "coltrane_Entry list" where
  "sample_timeline =
     [coltrane_entry_at 3 300 LIVE_STATUS, coltrane_entry_at 1 100 LIVE_STATUS,
      coltrane_entry_at 2 200 HIDDEN_STATUS]"

section \<open>Properties\<close>

subsection \<open>The mapper\<close>

lemma fresh_pk_bound:
  "r \<in> set tbl \<Longrightarrow> get_id r = Some k \<Longrightarrow> k < fresh_pk get_id tbl"
  unfolding fresh_pk_def
  by (induction tbl) (auto split: option.splits simp: less_Suc_eq_le max_def)

lemma fresh_pk_unused: "r \<in> set tbl \<Longrightarrow> get_id r \<noteq> Some (fresh_pk get_id tbl)"
  using fresh_pk_bound [of r tbl get_id "fresh_pk get_id tbl"] by auto

lemma fresh_pk_pos: "pk_set (Some (fresh_pk get_id tbl))"
  by (simp add: fresh_pk_def)

lemma Model_save_obj:
  "Model_save get_id set_id clash obj tbl = Inr (obj', tbl') \<Longrightarrow>
   obj' = (if pk_set (get_id obj) then obj else set_id (Some (fresh_pk get_id tbl)) obj)"
  unfolding Model_save_def by (auto simp: Let_def split: if_splits)

lemma Model_save_stored:
  "Model_save get_id set_id clash obj tbl = Inr (obj', tbl') \<Longrightarrow> obj' \<in> set tbl'"
  unfolding Model_save_def
  by (auto simp: Let_def list_ex_iff split: if_splits)

lemma Model_save_key_rows:
  assumes "\<And>k r. get_id (set_id k r) = k"
    and "Model_save get_id set_id clash obj tbl = Inr (obj', tbl')"
    and "r \<in> set tbl'" and "get_id r = get_id obj'"
  shows "r = obj'"
  using assms fresh_pk_unused [of _ tbl get_id] unfolding Model_save_def
  by (auto simp: Let_def list_ex_iff split: if_splits)

lemma Model_save_pk_set:
  assumes "\<And>k r. get_id (set_id k r) = k"
    and "Model_save get_id set_id clash obj tbl = Inr (obj', tbl')"
  shows "pk_set (get_id obj')"
  using assms fresh_pk_pos [of get_id tbl] unfolding Model_save_def
  by (auto simp: Let_def split: if_splits)

lemma Model_save_created:
  assumes "\<And>k r. get_id (set_id k r) = k"
    and "Model_save get_id set_id clash obj tbl = Inr (obj', tbl')"
    and "\<not> pk_set (get_id obj)"
  shows "tbl' = tbl @ [obj'] \<and> (\<forall>r\<in>set tbl. get_id r \<noteq> get_id obj')"
  using assms fresh_pk_unused [of _ tbl get_id] unfolding Model_save_def
  by (auto simp: Let_def split: if_splits)

lemma Model_save_refused:
  "list_ex (\<lambda>r. get_id r \<noteq> get_id obj \<and> clash r obj) tbl \<Longrightarrow> pk_set (get_id obj) \<Longrightarrow>
   Model_save get_id set_id clash obj tbl = Inl IntegrityError"
  unfolding Model_save_def
  by (auto simp: Let_def list_ex_iff split: if_splits)

lemma Model_save_stored_as:
  assumes "\<And>k r. get_id (set_id k r) = k"
    and "Model_save get_id set_id clash obj tbl = Inr (obj', tbl')"
  shows "stored_as get_id obj' tbl'"
  unfolding stored_as_def
  using Model_save_stored [OF assms(2)] Model_save_key_rows [OF assms] by blast

lemma Entry_save_result:
  assumes "Entry_save m p e db = Inr (e1, db1)"
  shows "Entry.body_html e1 = m (Entry.body e)" and "Entry.body e1 = Entry.body e"
    and "stored_as Entry.id e1 (entry_table db1)" and "pk_set (Entry.id e1)"
    and "pk_set (Entry.id e) \<Longrightarrow> Entry.id e1 = Entry.id e"
proof -
  define e' where "e' = (if truthy_text (Entry.excerpt e)
       then e\<lparr>Entry.excerpt_html := map_option m (Entry.excerpt e)\<rparr> else e)
       \<lparr>Entry.body_html := m (Entry.body e)\<rparr>"
  from assms obtain tbl where
    ms: "Model_save Entry.id (\<lambda>k r. r\<lparr>Entry.id := k\<rparr>) Entry_unique e' (entry_table db) = Inr (e1, tbl)"
    and tb: "entry_table db1 = tbl"
    unfolding Entry_save_def e'_def
    by (auto simp: Let_def split: sum.splits if_splits)
  have o: "e1 = (if pk_set (Entry.id e') then e'
                 else e'\<lparr>Entry.id := Some (fresh_pk Entry.id (entry_table db))\<rparr>)"
    using Model_save_obj [OF ms] .
  show "Entry.body_html e1 = m (Entry.body e)" using o by (simp add: e'_def)
  show "Entry.body e1 = Entry.body e" using o by (simp add: e'_def)
  show "stored_as Entry.id e1 (entry_table db1)"
    using Model_save_stored_as [OF _ ms] tb by simp
  show "pk_set (Entry.id e1)"
    using Model_save_pk_set [OF _ ms] by simp
  show "pk_set (Entry.id e) \<Longrightarrow> Entry.id e1 = Entry.id e" using o by (simp add: e'_def)
qed

lemma coltrane_Entry_save_result:
  assumes "coltrane_Entry_save m e tbl = Inr (e1, tbl1)"
  shows "coltrane_Entry.body_html e1 = m (coltrane_Entry.body e)"
    and "coltrane_Entry.body e1 = coltrane_Entry.body e"
    and "stored_as coltrane_Entry.id e1 tbl1" and "pk_set (coltrane_Entry.id e1)"
    and "pk_set (coltrane_Entry.id e) \<Longrightarrow> coltrane_Entry.id e1 = coltrane_Entry.id e"
proof -
  define e' where "e' = (if truthy_text (coltrane_Entry.excerpt e)
       then e\<lparr>coltrane_Entry.excerpt_html := map_option m (coltrane_Entry.excerpt e)\<rparr> else e)
       \<lparr>coltrane_Entry.body_html := m (coltrane_Entry.body e)\<rparr>"
  from assms have
    ms: "Model_save coltrane_Entry.id (\<lambda>k r. r\<lparr>coltrane_Entry.id := k\<rparr>)
           coltrane_Entry_unique e' tbl = Inr (e1, tbl1)"
    unfolding coltrane_Entry_save_def e'_def
    by (auto simp: Let_def split: if_splits)
  have o: "e1 = (if pk_set (coltrane_Entry.id e') then e'
                 else e'\<lparr>coltrane_Entry.id := Some (fresh_pk coltrane_Entry.id tbl)\<rparr>)"
    using Model_save_obj [OF ms] .
  show "coltrane_Entry.body_html e1 = m (coltrane_Entry.body e)" using o by (simp add: e'_def)
  show "coltrane_Entry.body e1 = coltrane_Entry.body e" using o by (simp add: e'_def)
  show "stored_as coltrane_Entry.id e1 tbl1"
    using Model_save_stored_as [OF _ ms] by simp
  show "pk_set (coltrane_Entry.id e1)"
    using Model_save_pk_set [OF _ ms] by simp
  show "pk_set (coltrane_Entry.id e) \<Longrightarrow> coltrane_Entry.id e1 = coltrane_Entry.id e"
    using o by (simp add: e'_def)
qed

lemmas save_eval = Entry_save_def coltrane_Entry_save_def Model_save_def Let_def fresh_pk_def
  Entry_init_def coltrane_Entry_init_def sample_markup_def sample_parse_tags_def
  sample_database_def Entry_unique_def coltrane_Entry_unique_def Entry_set_tags_def update_tags_def

lemma try_except_pass_ok: "try_except_pass r = Inr ()"
  by (cases r) (simp_all add: try_except_pass_def)

lemma Link_save_posts:
  "fst (Link_save lib m p conf l db) =
     (if \<not> pk_set (Link.id l) \<and> Link.post_elsewhere l \<and> lib \<noteq> None
      then [(DELICIOUS_USER conf, DELICIOUS_PASSWORD conf, Link.url l, Link.title l,
             Link.tag_list l)]
      else [])"
  by (simp add: Link_save_def Let_def)

lemma coltrane_Link_save_posts:
  "fst (coltrane_Link_save lib m sm conf l tbl) =
     (if \<not> pk_set (coltrane_Link.id l) \<and> coltrane_Link.post_elsewhere l \<and> lib \<noteq> None
      then [(DELICIOUS_USER conf, DELICIOUS_PASSWORD conf, sm (coltrane_Link.url l),
             sm (coltrane_Link.title l), Some (sm (coltrane_Link.tags l)))]
      else [])"
  by (simp add: coltrane_Link_save_def Let_def)

lemma Link_save_outcome:
  "snd (Link_save lib m p conf l db) =
     (if \<not> pk_set (Link.id l) \<and> Link.post_elsewhere l \<and> lib = None then Inl ImportError
      else case Model_save Link.id (\<lambda>k r. r\<lparr>Link.id := k\<rparr>) Link_unique
             (l\<lparr>Link.description_html := m (Link.description l)\<rparr>) (link_table db) of
        Inl e \<Rightarrow> Inl e
      | Inr (l2, tbl) \<Rightarrow>
          Inr (l2, db\<lparr>link_table := tbl,
                      tagged_items := Link_set_tags l2 (p (Link.tag_list l2)) (tagged_items db)\<rparr>))"
  by (cases lib) (simp_all add: Link_save_def Let_def try_except_pass_ok)

lemma coltrane_Link_save_outcome:
  "snd (coltrane_Link_save lib m sm conf l tbl) =
     (if \<not> pk_set (coltrane_Link.id l) \<and> coltrane_Link.post_elsewhere l \<and> lib = None
      then Inl ImportError
      else Model_save coltrane_Link.id (\<lambda>k r. r\<lparr>coltrane_Link.id := k\<rparr>) coltrane_Link_unique
       (if truthy_text (coltrane_Link.description l)
        then l\<lparr>coltrane_Link.description_html := map_option m (coltrane_Link.description l)\<rparr>
        else l) tbl)"
  by (cases lib) (simp_all add: coltrane_Link_save_def Let_def try_except_pass_ok)

lemma Link_save_result:
  assumes "snd (Link_save lib m p conf l db) = Inr (l1, db1)"
  shows "Link.description_html l1 = m (Link.description l)"
    and "Link.description l1 = Link.description l"
    and "stored_as Link.id l1 (link_table db1)" and "pk_set (Link.id l1)"
    and "pk_set (Link.id l) \<Longrightarrow> Link.id l1 = Link.id l"
    and "\<not> pk_set (Link.id l) \<Longrightarrow>
           link_table db1 = link_table db @ [l1] \<and>
           (\<forall>r\<in>set (link_table db). Link.id r \<noteq> Link.id l1)"
proof -
  define l' where "l' = l\<lparr>Link.description_html := m (Link.description l)\<rparr>"
  from assms obtain tbl where
    ms: "Model_save Link.id (\<lambda>k r. r\<lparr>Link.id := k\<rparr>) Link_unique l' (link_table db) = Inr (l1, tbl)"
    and tb: "link_table db1 = tbl"
    unfolding Link_save_outcome l'_def by (auto split: sum.splits if_splits)
  have o: "l1 = (if pk_set (Link.id l') then l'
                 else l'\<lparr>Link.id := Some (fresh_pk Link.id (link_table db))\<rparr>)"
    using Model_save_obj [OF ms] .
  show "Link.description_html l1 = m (Link.description l)" using o by (simp add: l'_def)
  show "Link.description l1 = Link.description l" using o by (simp add: l'_def)
  show "stored_as Link.id l1 (link_table db1)"
    using Model_save_stored_as [OF _ ms] tb by simp
  show "pk_set (Link.id l1)" using Model_save_pk_set [OF _ ms] by simp
  show "pk_set (Link.id l) \<Longrightarrow> Link.id l1 = Link.id l" using o by (simp add: l'_def)
  show "\<not> pk_set (Link.id l) \<Longrightarrow>
           link_table db1 = link_table db @ [l1] \<and>
           (\<forall>r\<in>set (link_table db). Link.id r \<noteq> Link.id l1)"
    using Model_save_created [OF _ ms] tb by (simp add: l'_def)
qed

lemma coltrane_Link_save_result:
  assumes "snd (coltrane_Link_save lib m sm conf l tbl) = Inr (l1, tbl1)"
  shows "truthy_text (coltrane_Link.description l) \<Longrightarrow>
           coltrane_Link.description_html l1 = map_option m (coltrane_Link.description l)"
    and "coltrane_Link.description l1 = coltrane_Link.description l"
    and "stored_as coltrane_Link.id l1 tbl1" and "pk_set (coltrane_Link.id l1)"
    and "pk_set (coltrane_Link.id l) \<Longrightarrow> coltrane_Link.id l1 = coltrane_Link.id l"
    and "\<not> pk_set (coltrane_Link.id l) \<Longrightarrow>
           tbl1 = tbl @ [l1] \<and> (\<forall>r\<in>set tbl. coltrane_Link.id r \<noteq> coltrane_Link.id l1)"
proof -
  define l' where "l' = (if truthy_text (coltrane_Link.description l)
        then l\<lparr>coltrane_Link.description_html := map_option m (coltrane_Link.description l)\<rparr>
        else l)"
  from assms have
    ms: "Model_save coltrane_Link.id (\<lambda>k r. r\<lparr>coltrane_Link.id := k\<rparr>) coltrane_Link_unique
           l' tbl = Inr (l1, tbl1)"
    unfolding coltrane_Link_save_outcome l'_def by (simp split: if_splits)
  have o: "l1 = (if pk_set (coltrane_Link.id l') then l'
                 else l'\<lparr>coltrane_Link.id := Some (fresh_pk coltrane_Link.id tbl)\<rparr>)"
    using Model_save_obj [OF ms] .
  show "truthy_text (coltrane_Link.description l) \<Longrightarrow>
           coltrane_Link.description_html l1 = map_option m (coltrane_Link.description l)"
    using o by (simp add: l'_def)
  show "coltrane_Link.description l1 = coltrane_Link.description l" using o by (simp add: l'_def)
  show "stored_as coltrane_Link.id l1 tbl1" using Model_save_stored_as [OF _ ms] by simp
  show "pk_set (coltrane_Link.id l1)" using Model_save_pk_set [OF _ ms] by simp
  show "pk_set (coltrane_Link.id l) \<Longrightarrow> coltrane_Link.id l1 = coltrane_Link.id l"
    using o by (simp add: l'_def)
  show "\<not> pk_set (coltrane_Link.id l) \<Longrightarrow>
           tbl1 = tbl @ [l1] \<and> (\<forall>r\<in>set tbl. coltrane_Link.id r \<noteq> coltrane_Link.id l1)"
    using Model_save_created [OF _ ms] by (simp add: l'_def)
qed

lemma coltrane_Entry_save_excerpt:
  assumes "coltrane_Entry_save m e tbl = Inr (e1, tbl1)"
  shows "truthy_text (coltrane_Entry.excerpt e) \<Longrightarrow>
           coltrane_Entry.excerpt_html e1 = map_option m (coltrane_Entry.excerpt e)"
    and "coltrane_Entry.excerpt e1 = coltrane_Entry.excerpt e"
proof -
  define e' where "e' = (if truthy_text (coltrane_Entry.excerpt e)
       then e\<lparr>coltrane_Entry.excerpt_html := map_option m (coltrane_Entry.excerpt e)\<rparr> else e)
       \<lparr>coltrane_Entry.body_html := m (coltrane_Entry.body e)\<rparr>"
  from assms have
    ms: "Model_save coltrane_Entry.id (\<lambda>k r. r\<lparr>coltrane_Entry.id := k\<rparr>)
           coltrane_Entry_unique e' tbl = Inr (e1, tbl1)"
    unfolding coltrane_Entry_save_def e'_def
    by (auto simp: Let_def split: if_splits)
  have o: "e1 = (if pk_set (coltrane_Entry.id e') then e'
                 else e'\<lparr>coltrane_Entry.id := Some (fresh_pk coltrane_Entry.id tbl)\<rparr>)"
    using Model_save_obj [OF ms] .
  show "truthy_text (coltrane_Entry.excerpt e) \<Longrightarrow>
           coltrane_Entry.excerpt_html e1 = map_option m (coltrane_Entry.excerpt e)"
    using o by (simp add: e'_def)
  show "coltrane_Entry.excerpt e1 = coltrane_Entry.excerpt e" using o by (simp add: e'_def)
qed


lemma Model_save_no_constraint:
  "\<exists>obj' tbl'. Model_save get_id set_id (\<lambda>r obj. False) obj tbl = Inr (obj', tbl')"
  unfolding Model_save_def by (simp add: Let_def list_ex_iff)

lemmas sample_eval = sample_settings_def failing_service_def working_service_def sample_entry_def
  sample_entry_saved_def sample_link_def sample_link_saved_def coltrane_Link_save_def
  coltrane_Link_unique_def try_except_pass_def

lemmas old_link_eval = sample_old_link_def Link_save_def Link_unique_def Link_set_tags_def

lemma status_Live: "map_of ENTRY_STATUS_CHOICES s = Some ''Live'' \<longleftrightarrow> s = 1"
  by (simp add: ENTRY_STATUS_CHOICES_def)

lemma status_Draft: "map_of ENTRY_STATUS_CHOICES s = Some ''Draft'' \<longleftrightarrow> s = 2"
  by (simp add: ENTRY_STATUS_CHOICES_def)

lemma set_order_by_pub_date_desc: "set (order_by_pub_date_desc rows) = set rows"
  by (simp add: order_by_pub_date_desc_def)

lemma mset_order_by_pub_date_desc: "mset (order_by_pub_date_desc rows) = mset rows"
  by (simp add: order_by_pub_date_desc_def)

lemma sorted_order_by_pub_date_desc:
  "sorted_wrt (\<lambda>a b. Entry.pub_date b \<le> Entry.pub_date a) (order_by_pub_date_desc rows)"
proof -
  have "sorted (map (\<lambda>e. - Entry.pub_date e) (sort_key (\<lambda>e. - Entry.pub_date e) rows))"
    by (rule sorted_sort_key)
  then show ?thesis
    by (simp add: order_by_pub_date_desc_def sorted_map)
qed

lemma Entry_save_status:
  assumes "Entry_save m p e db = Inr (e1, db1)"
  shows "Entry.status e1 = Entry.status e" and "e1 \<in> set (entry_table db1)"
proof -
  define e' where "e' = (if truthy_text (Entry.excerpt e)
       then e\<lparr>Entry.excerpt_html := map_option m (Entry.excerpt e)\<rparr> else e)
       \<lparr>Entry.body_html := m (Entry.body e)\<rparr>"
  from assms obtain tbl where
    ms: "Model_save Entry.id (\<lambda>k r. r\<lparr>Entry.id := k\<rparr>) Entry_unique e' (entry_table db) = Inr (e1, tbl)"
    and tb: "entry_table db1 = tbl"
    unfolding Entry_save_def e'_def
    by (auto simp: Let_def split: sum.splits if_splits)
  show "Entry.status e1 = Entry.status e"
    using Model_save_obj [OF ms] by (simp add: e'_def)
  show "e1 \<in> set (entry_table db1)"
    using Model_save_stored [OF ms] tb by simp
qed

lemma coltrane_Entry_save_status:
  assumes "coltrane_Entry_save m e tbl = Inr (e1, tbl1)"
  shows "coltrane_Entry.status e1 = coltrane_Entry.status e"
proof -
  define e' where "e' = (if truthy_text (coltrane_Entry.excerpt e)
       then e\<lparr>coltrane_Entry.excerpt_html := map_option m (coltrane_Entry.excerpt e)\<rparr> else e)
       \<lparr>coltrane_Entry.body_html := m (coltrane_Entry.body e)\<rparr>"
  from assms have
    ms: "Model_save coltrane_Entry.id (\<lambda>k r. r\<lparr>coltrane_Entry.id := k\<rparr>)
           coltrane_Entry_unique e' tbl = Inr (e1, tbl1)"
    unfolding coltrane_Entry_save_def e'_def
    by (auto simp: Let_def split: if_splits)
  show ?thesis using Model_save_obj [OF ms] by (simp add: e'_def)
qed

lemmas ranking_eval = most_commented_def score_query_def slice_to_def in_bulk_def
  public_comments_def sample_ranking_def sample_orphan_def sample_database_def entry_at_def
  Entry_init_def List.map_filter_def Let_def

lemmas timeline_eval = coltrane_Entry_get_next_def coltrane_Entry_get_previous_def
  coltrane_Entry_next_previous_helper_def get_next_or_previous_by_pub_date_def
  coltrane_entry_at_def coltrane_Entry_init_def sample_timeline_def id_less_def id_key_def
  LIVE_STATUS_def HIDDEN_STATUS_def Let_def

subsection \<open>Comment moderation window\<close>

text \<open>
  \<^verbatim>\<open>comments_open\<close> raises exactly when comments are enabled and the cut-off is not a
  datetime, and then it raises \<^verbatim>\<open>OverflowError\<close>.
\<close>

lemma timedelta_sub_cases:
  "(case timedelta (COMMENTS_MODERATE_AFTER conf) of
      Inl e \<Rightarrow> Inl e
    | Inr t \<Rightarrow> (case datetime_sub today t of
                  Inl e \<Rightarrow> Inl e
                | Inr cutoff \<Rightarrow> Inr (cutoff \<le> pub))) =
   (if cutoff_representable conf today
    then Inr (today - pub \<le> COMMENTS_MODERATE_AFTER conf * 86400000000)
    else Inl OverflowError)"
  by (auto simp: timedelta_def datetime_sub_def cutoff_representable_def)

lemma Entry_comments_open_cases:
  "Entry_comments_open conf today e =
     (if \<not> Entry.enable_comments e then Inr False
      else if cutoff_representable conf today
      then Inr (today - Entry.pub_date e \<le> COMMENTS_MODERATE_AFTER conf * 86400000000)
      else Inl OverflowError)"
  unfolding Entry_comments_open_def timedelta_sub_cases by simp

lemma Link_comments_open_cases:
  "Link_comments_open conf today l =
     (if \<not> Link.enable_comments l then Inr False
      else if cutoff_representable conf today
      then Inr (today - Link.pub_date l \<le> COMMENTS_MODERATE_AFTER conf * 86400000000)
      else Inl OverflowError)"
  unfolding Link_comments_open_def timedelta_sub_cases by simp

lemma comments_open_raises_iff:
  "(Entry_comments_open conf today e = Inl err) =
     (err = OverflowError \<and> Entry.enable_comments e \<and> \<not> cutoff_representable conf today)"
  "(Link_comments_open conf today l = Inl err) =
     (err = OverflowError \<and> Link.enable_comments l \<and> \<not> cutoff_representable conf today)"
  by (auto simp: Entry_comments_open_cases Link_comments_open_cases)

lemmas window_eval = sample_settings_def sample_today_def sample_recent_entry_def
  sample_recent_link_def sample_old_link_def Entry_init_def cutoff_representable_def
  datetime_max_def

text \<open>
  On 4 November 2026, with \<^verbatim>\<open>COMMENTS_MODERATE_AFTER = 1000000\<close> (days), an entry and a link
  of the day before with comments enabled: \<open>today - pub_date\<close> is within the window, but the
  cut-off lies before year 1 and \<^verbatim>\<open>today() - timedelta(1000000)\<close> raises \<^verbatim>\<open>OverflowError\<close>.
\<close>

theorem comments_open_overflow_counterexample:
  "Entry_comments_open (sample_settings\<lparr>COMMENTS_MODERATE_AFTER := 1000000\<rparr>) sample_today
     sample_recent_entry = Inl OverflowError \<and>
   Entry.enable_comments sample_recent_entry \<and>
   sample_today - Entry.pub_date sample_recent_entry \<le> 1000000 * 86400000000 \<and>
   Link_comments_open (sample_settings\<lparr>COMMENTS_MODERATE_AFTER := 1000000\<rparr>) sample_today
     sample_recent_link = Inl OverflowError \<and>
   Link.enable_comments sample_recent_link \<and>
   sample_today - Link.pub_date sample_recent_link \<le> 1000000 * 86400000000"
  by (simp add: Entry_comments_open_cases Link_comments_open_cases window_eval)

text \<open>
  C2 (as amended).  For every entry and every link, and every current time:
  \<^verbatim>\<open>comments_open\<close> returns false when \<^verbatim>\<open>enable_comments\<close> is unset; and when the cut-off,
  the current time less \<^verbatim>\<open>COMMENTS_MODERATE_AFTER\<close> days, is a representable datetime, it
  returns true exactly when \<^verbatim>\<open>enable_comments\<close> is set and the age \<open>today - pub_date\<close> is at
  most \<^verbatim>\<open>COMMENTS_MODERATE_AFTER\<close> days, so false once the age exceeds the window.
\<close>

theorem comments_open_in_range:
  "(\<not> Entry.enable_comments e \<longrightarrow> Entry_comments_open conf today e = Inr False)
   \<and> (cutoff_representable conf today \<longrightarrow>
        Entry_comments_open conf today e =
          Inr (Entry.enable_comments e \<and>
               today - Entry.pub_date e \<le> COMMENTS_MODERATE_AFTER conf * 86400000000))
   \<and> (\<not> Link.enable_comments l \<longrightarrow> Link_comments_open conf today l = Inr False)
   \<and> (cutoff_representable conf today \<longrightarrow>
        Link_comments_open conf today l =
          Inr (Link.enable_comments l \<and>
               today - Link.pub_date l \<le> COMMENTS_MODERATE_AFTER conf * 86400000000))"
  by (simp add: Entry_comments_open_cases Link_comments_open_cases)

theorem comments_open_in_range_witness:
  "cutoff_representable sample_settings sample_today \<and>
   Entry_comments_open sample_settings sample_today sample_recent_entry = Inr True \<and>
   Entry_comments_open sample_settings sample_today
     (sample_recent_entry\<lparr>Entry.pub_date := sample_today - 31 * 86400000000\<rparr>) = Inr False \<and>
   Entry_comments_open sample_settings sample_today
     (sample_recent_entry\<lparr>Entry.enable_comments := False\<rparr>) = Inr False \<and>
   Link_comments_open sample_settings sample_today sample_recent_link = Inr True \<and>
   Link_comments_open sample_settings sample_today
     (sample_recent_link\<lparr>Link.pub_date := sample_today - 31 * 86400000000\<rparr>) = Inr False \<and>
   Link_comments_open (sample_settings\<lparr>COMMENTS_MODERATE_AFTER := 1000000\<rparr>) sample_today
     (sample_recent_link\<lparr>Link.enable_comments := False\<rparr>) = Inr False"
proof -
  have r: "cutoff_representable sample_settings sample_today"
    by (simp add: window_eval)
  have d: "\<not> Link.enable_comments (sample_recent_link\<lparr>Link.enable_comments := False\<rparr>)"
    "\<not> Entry.enable_comments (sample_recent_entry\<lparr>Entry.enable_comments := False\<rparr>)"
    by simp_all
  show ?thesis
    using r d
      comments_open_in_range [of sample_recent_entry sample_settings sample_today
        sample_recent_link]
      comments_open_in_range [of
        "sample_recent_entry\<lparr>Entry.pub_date := sample_today - 31 * 86400000000\<rparr>"
        sample_settings sample_today
        "sample_recent_link\<lparr>Link.pub_date := sample_today - 31 * 86400000000\<rparr>"]
      comments_open_in_range [of
        "sample_recent_entry\<lparr>Entry.enable_comments := False\<rparr>"
        sample_settings sample_today sample_recent_link]
      comments_open_in_range [of sample_recent_entry
        "sample_settings\<lparr>COMMENTS_MODERATE_AFTER := 1000000\<rparr>" sample_today
        "sample_recent_link\<lparr>Link.enable_comments := False\<rparr>"]
    by (simp add: window_eval)
qed

subsection \<open>Rendering on save\<close>

text \<open>
  C3.  For every \<^verbatim>\<open>Entry\<close> (of either file), right after a save that succeeded the stored
  \<^verbatim>\<open>body_html\<close> is the rendering of the body (which the save leaves as it was), and a later
  save after an edit of \<^verbatim>\<open>body\<close> stores, under the same key, the rendering of the new body.
\<close>

theorem save_renders_body:
  "(Entry_save m p e db = Inr (e1, db1) \<longrightarrow>
      Entry.body_html e1 = m (Entry.body e1) \<and> Entry.body e1 = Entry.body e \<and>
      stored_as Entry.id e1 (entry_table db1))
   \<and> (Entry_save m p e db = Inr (e1, db1) \<longrightarrow>
      Entry_save m p (e1\<lparr>Entry.body := b\<rparr>) db1 = Inr (e2, db2) \<longrightarrow>
      Entry.id e2 = Entry.id e1 \<and> Entry.body_html e2 = m b \<and>
      stored_as Entry.id e2 (entry_table db2))
   \<and> (coltrane_Entry_save m c tbl = Inr (c1, tbl1) \<longrightarrow>
      coltrane_Entry.body_html c1 = m (coltrane_Entry.body c1) \<and>
      coltrane_Entry.body c1 = coltrane_Entry.body c \<and>
      stored_as coltrane_Entry.id c1 tbl1)
   \<and> (coltrane_Entry_save m c tbl = Inr (c1, tbl1) \<longrightarrow>
      coltrane_Entry_save m (c1\<lparr>coltrane_Entry.body := b\<rparr>) tbl1 = Inr (c2, tbl2) \<longrightarrow>
      coltrane_Entry.id c2 = coltrane_Entry.id c1 \<and> coltrane_Entry.body_html c2 = m b \<and>
      stored_as coltrane_Entry.id c2 tbl2)"
proof (intro conjI impI)
  assume s: "Entry_save m p e db = Inr (e1, db1)"
  show "Entry.body_html e1 = m (Entry.body e1)"
    using Entry_save_result(1,2) [OF s] by simp
  show "Entry.body e1 = Entry.body e" using Entry_save_result(2) [OF s] .
  show "stored_as Entry.id e1 (entry_table db1)" using Entry_save_result(3) [OF s] .
next
  assume s: "Entry_save m p e db = Inr (e1, db1)"
    and t: "Entry_save m p (e1\<lparr>Entry.body := b\<rparr>) db1 = Inr (e2, db2)"
  have "pk_set (Entry.id (e1\<lparr>Entry.body := b\<rparr>))" using Entry_save_result(4) [OF s] by simp
  from Entry_save_result(5) [OF t this] show "Entry.id e2 = Entry.id e1" by simp
  show "Entry.body_html e2 = m b" using Entry_save_result(1) [OF t] by simp
  show "stored_as Entry.id e2 (entry_table db2)" using Entry_save_result(3) [OF t] .
next
  assume s: "coltrane_Entry_save m c tbl = Inr (c1, tbl1)"
  show "coltrane_Entry.body_html c1 = m (coltrane_Entry.body c1)"
    using coltrane_Entry_save_result(1,2) [OF s] by simp
  show "coltrane_Entry.body c1 = coltrane_Entry.body c"
    using coltrane_Entry_save_result(2) [OF s] .
  show "stored_as coltrane_Entry.id c1 tbl1" using coltrane_Entry_save_result(3) [OF s] .
next
  assume s: "coltrane_Entry_save m c tbl = Inr (c1, tbl1)"
    and t: "coltrane_Entry_save m (c1\<lparr>coltrane_Entry.body := b\<rparr>) tbl1 = Inr (c2, tbl2)"
  have "pk_set (coltrane_Entry.id (c1\<lparr>coltrane_Entry.body := b\<rparr>))"
    using coltrane_Entry_save_result(4) [OF s] by simp
  from coltrane_Entry_save_result(5) [OF t this]
  show "coltrane_Entry.id c2 = coltrane_Entry.id c1" by simp
  show "coltrane_Entry.body_html c2 = m b" using coltrane_Entry_save_result(1) [OF t] by simp
  show "stored_as coltrane_Entry.id c2 tbl2" using coltrane_Entry_save_result(3) [OF t] .
qed

theorem save_renders_body_witness:
  "\<exists>e1 db1 e2 db2 c1 tbl1 c2 tbl2.
     Entry_save sample_markup sample_parse_tags
       (Entry_init 100 1 ''s'' ''t'' ''hello'' None) sample_database = Inr (e1, db1) \<and>
     Entry_save sample_markup sample_parse_tags (e1\<lparr>Entry.body := ''bye''\<rparr>) db1 = Inr (e2, db2) \<and>
     Entry.body_html e1 = ''<p>hello</p>'' \<and> Entry.body_html e2 = ''<p>bye</p>'' \<and>
     stored_as Entry.id e2 (entry_table db2) \<and> Entry.id e2 = Entry.id e1 \<and>
     coltrane_Entry_save sample_markup
       (coltrane_Entry_init 100 1 ''s'' ''t'' ''hello'' None) [] = Inr (c1, tbl1) \<and>
     coltrane_Entry_save sample_markup (c1\<lparr>coltrane_Entry.body := ''bye''\<rparr>) tbl1 = Inr (c2, tbl2) \<and>
     coltrane_Entry.body_html c1 = ''<p>hello</p>'' \<and> coltrane_Entry.body_html c2 = ''<p>bye</p>'' \<and>
     stored_as coltrane_Entry.id c2 tbl2 \<and> coltrane_Entry.id c2 = coltrane_Entry.id c1"
proof -
  obtain e1 db1 where s1: "Entry_save sample_markup sample_parse_tags
       (Entry_init 100 1 ''s'' ''t'' ''hello'' None) sample_database = Inr (e1, db1)"
    by (simp add: save_eval)
  have b1: "Entry.body e1 = ''hello''"
    using s1 by (auto simp add: save_eval)
  obtain e2 db2 where s2: "Entry_save sample_markup sample_parse_tags
       (e1\<lparr>Entry.body := ''bye''\<rparr>) db1 = Inr (e2, db2)"
    using s1 by (auto simp add: save_eval)
  obtain c1 tbl1 where t1: "coltrane_Entry_save sample_markup
       (coltrane_Entry_init 100 1 ''s'' ''t'' ''hello'' None) [] = Inr (c1, tbl1)"
    by (simp add: save_eval)
  have d1: "coltrane_Entry.body c1 = ''hello''"
    using t1 by (auto simp add: save_eval)
  obtain c2 tbl2 where t2: "coltrane_Entry_save sample_markup
       (c1\<lparr>coltrane_Entry.body := ''bye''\<rparr>) tbl1 = Inr (c2, tbl2)"
    using t1 by (auto simp add: save_eval)
  show ?thesis
    using save_renders_body [of sample_markup sample_parse_tags
        "Entry_init 100 1 ''s'' ''t'' ''hello'' None" sample_database e1 db1 "''bye''" e2 db2
        "coltrane_Entry_init 100 1 ''s'' ''t'' ''hello'' None" "[]" c1 tbl1 c2 tbl2]
      s1 s2 t1 t2 b1 d1
    by (auto simp add: sample_markup_def Entry_init_def coltrane_Entry_init_def)
qed

text \<open>
  The guard \<^verbatim>\<open>if self.excerpt:\<close> (\<^verbatim>\<open>if self.description:\<close>) skips the rendering of an empty
  source.  An entry saved with the excerpt \<^verbatim>\<open>x\<close>, edited to the empty excerpt and saved
  again, keeps the rendering of \<^verbatim>\<open>x\<close>; so does a link whose description is emptied.
\<close>

theorem stale_rendering_counterexample:
  "coltrane_Entry_save sample_markup sample_entry [] =
     Inr (sample_entry_saved, [sample_entry_saved]) \<and>
   coltrane_Entry_save sample_markup
     (sample_entry_saved\<lparr>coltrane_Entry.excerpt := Some []\<rparr>) [sample_entry_saved] =
     Inr (sample_entry_saved\<lparr>coltrane_Entry.excerpt := Some []\<rparr>,
          [sample_entry_saved\<lparr>coltrane_Entry.excerpt := Some []\<rparr>]) \<and>
   coltrane_Entry.excerpt_html (sample_entry_saved\<lparr>coltrane_Entry.excerpt := Some []\<rparr>) =
     Some ''<p>x</p>'' \<and>
   map_option sample_markup
     (coltrane_Entry.excerpt (sample_entry_saved\<lparr>coltrane_Entry.excerpt := Some []\<rparr>)) =
     Some ''<p></p>'' \<and>
   coltrane_Entry.excerpt_html (sample_entry_saved\<lparr>coltrane_Entry.excerpt := Some []\<rparr>) \<noteq>
     map_option sample_markup
       (coltrane_Entry.excerpt (sample_entry_saved\<lparr>coltrane_Entry.excerpt := Some []\<rparr>)) \<and>
   snd (coltrane_Link_save (Some failing_service) sample_markup (\<lambda>s. s) sample_settings
          sample_link []) =
     Inr (sample_link_saved, [sample_link_saved]) \<and>
   snd (coltrane_Link_save (Some failing_service) sample_markup (\<lambda>s. s) sample_settings
          (sample_link_saved\<lparr>coltrane_Link.description := Some []\<rparr>) [sample_link_saved]) =
     Inr (sample_link_saved\<lparr>coltrane_Link.description := Some []\<rparr>,
          [sample_link_saved\<lparr>coltrane_Link.description := Some []\<rparr>]) \<and>
   coltrane_Link.description_html (sample_link_saved\<lparr>coltrane_Link.description := Some []\<rparr>) =
     Some ''<p>d</p>'' \<and>
   map_option sample_markup
     (coltrane_Link.description (sample_link_saved\<lparr>coltrane_Link.description := Some []\<rparr>)) =
     Some ''<p></p>''"
  by (simp add: save_eval sample_eval)

text \<open>
  C4 (as amended).  For every \<^verbatim>\<open>Entry\<close> and \<^verbatim>\<open>Link\<close> of \<^verbatim>\<open>src/coltrane/models.py\<close>, after a
  save that succeeded with a non-empty source field the stored rendered field is the
  rendering of the current source: \<^verbatim>\<open>excerpt_html\<close> of a non-empty \<^verbatim>\<open>excerpt\<close>,
  \<^verbatim>\<open>description_html\<close> of a non-empty \<^verbatim>\<open>description\<close>.
\<close>

theorem save_renders_nonempty_source:
  "(coltrane_Entry_save m c tbl = Inr (c1, tbl1) \<longrightarrow> truthy_text (coltrane_Entry.excerpt c) \<longrightarrow>
      coltrane_Entry.excerpt_html c1 = map_option m (coltrane_Entry.excerpt c1) \<and>
      coltrane_Entry.excerpt c1 = coltrane_Entry.excerpt c \<and>
      stored_as coltrane_Entry.id c1 tbl1)
   \<and> (snd (coltrane_Link_save lib m sm conf l ltbl) = Inr (l1, ltbl1) \<longrightarrow>
      truthy_text (coltrane_Link.description l) \<longrightarrow>
      coltrane_Link.description_html l1 = map_option m (coltrane_Link.description l1) \<and>
      coltrane_Link.description l1 = coltrane_Link.description l \<and>
      stored_as coltrane_Link.id l1 ltbl1)"
proof (intro conjI impI)
  assume s: "coltrane_Entry_save m c tbl = Inr (c1, tbl1)"
    and t: "truthy_text (coltrane_Entry.excerpt c)"
  show "coltrane_Entry.excerpt_html c1 = map_option m (coltrane_Entry.excerpt c1)"
    using coltrane_Entry_save_excerpt [OF s] t by simp
  show "coltrane_Entry.excerpt c1 = coltrane_Entry.excerpt c"
    using coltrane_Entry_save_excerpt(2) [OF s] .
  show "stored_as coltrane_Entry.id c1 tbl1" using coltrane_Entry_save_result(3) [OF s] .
next
  assume s: "snd (coltrane_Link_save lib m sm conf l ltbl) = Inr (l1, ltbl1)"
    and t: "truthy_text (coltrane_Link.description l)"
  show "coltrane_Link.description_html l1 = map_option m (coltrane_Link.description l1)"
    using coltrane_Link_save_result(1,2) [OF s] t by simp
  show "coltrane_Link.description l1 = coltrane_Link.description l"
    using coltrane_Link_save_result(2) [OF s] .
  show "stored_as coltrane_Link.id l1 ltbl1" using coltrane_Link_save_result(3) [OF s] .
qed

theorem save_renders_nonempty_source_witness:
  "coltrane_Entry_save sample_markup sample_entry [] =
     Inr (sample_entry_saved, [sample_entry_saved]) \<and>
   truthy_text (coltrane_Entry.excerpt sample_entry) \<and>
   coltrane_Entry.excerpt_html sample_entry_saved = Some ''<p>x</p>'' \<and>
   stored_as coltrane_Entry.id sample_entry_saved [sample_entry_saved] \<and>
   snd (coltrane_Link_save (Some failing_service) sample_markup (\<lambda>s. s) sample_settings
          sample_link []) =
     Inr (sample_link_saved, [sample_link_saved]) \<and>
   truthy_text (coltrane_Link.description sample_link) \<and>
   coltrane_Link.description_html sample_link_saved = Some ''<p>d</p>'' \<and>
   stored_as coltrane_Link.id sample_link_saved [sample_link_saved]"
proof -
  have s: "coltrane_Entry_save sample_markup sample_entry [] =
     Inr (sample_entry_saved, [sample_entry_saved])"
    by (simp add: save_eval sample_eval)
  have t: "truthy_text (coltrane_Entry.excerpt sample_entry)"
    by (simp add: save_eval sample_eval)
  have u: "snd (coltrane_Link_save (Some failing_service) sample_markup (\<lambda>s. s) sample_settings
          sample_link []) = Inr (sample_link_saved, [sample_link_saved])"
    by (simp add: save_eval sample_eval)
  have v: "truthy_text (coltrane_Link.description sample_link)"
    by (simp add: sample_eval)
  show ?thesis
    using save_renders_nonempty_source [of sample_markup sample_entry "[]" sample_entry_saved
        "[sample_entry_saved]" "Some failing_service" "\<lambda>s. s" sample_settings sample_link "[]"
        sample_link_saved "[sample_link_saved]"] s t u v
    by (simp add: save_eval sample_eval)
qed

subsection \<open>Posting a link to the bookmarking service\<close>

text \<open>Without the library, a save that would post raises \<^verbatim>\<open>ImportError\<close> and stores nothing.\<close>

lemma Link_save_without_library:
  "\<not> pk_set (Link.id l) \<Longrightarrow> Link.post_elsewhere l \<Longrightarrow>
     Link_save None m p conf l db = ([], Inl ImportError)"
  "\<not> pk_set (coltrane_Link.id c) \<Longrightarrow> coltrane_Link.post_elsewhere c \<Longrightarrow>
     coltrane_Link_save None m sm conf c tbl = ([], Inl ImportError)"
  by (simp_all add: Link_save_def coltrane_Link_save_def Let_def)

text \<open>
  The post comes before the row is written.  A new link whose slug and \<^verbatim>\<open>pub_date\<close> are
  taken is posted, then refused by the database, and keeps no key; saved again under
  another slug, the same link is posted a second time.  Likewise in
  \<^verbatim>\<open>src/coltrane/models.py\<close> for a link whose \<^verbatim>\<open>url\<close> is taken, saved again under another.
\<close>

theorem repost_after_refusal_counterexample:
  "Link_save (Some working_service) sample_markup sample_parse_tags sample_settings
     sample_old_link sample_slug_taken =
     ([(''user'', ''secret'', ''http://example.com/'', ''A link'', None)],
      Inl IntegrityError) \<and>
   Link_save (Some working_service) sample_markup sample_parse_tags sample_settings
     (sample_old_link\<lparr>Link.slug := ''a-link-2''\<rparr>) sample_slug_taken =
     ([(''user'', ''secret'', ''http://example.com/'', ''A link'', None)],
      Inr (sample_old_link\<lparr>Link.id := Some 2, Link.slug := ''a-link-2'',
                           Link.description_html := ''<p>d</p>''\<rparr>,
           sample_slug_taken\<lparr>link_table :=
               link_table sample_slug_taken @
                 [sample_old_link\<lparr>Link.id := Some 2, Link.slug := ''a-link-2'',
                                  Link.description_html := ''<p>d</p>''\<rparr>],
             tagged_items :=
               update_tags (tagged_items sample_slug_taken) (LinkModel, Some 2) []\<rparr>)) \<and>
   coltrane_Link_save (Some working_service) sample_markup (\<lambda>s. s) sample_settings
     sample_link [sample_link_saved] =
     ([(''user'', ''secret'', ''http://example.com/'', ''A link'', Some ''t'')],
      Inl IntegrityError) \<and>
   coltrane_Link_save (Some working_service) sample_markup (\<lambda>s. s) sample_settings
     (sample_link\<lparr>coltrane_Link.url := ''http://example.org/''\<rparr>) [sample_link_saved] =
     ([(''user'', ''secret'', ''http://example.org/'', ''A link'', Some ''t'')],
      Inr (sample_link_saved\<lparr>coltrane_Link.id := Some 2,
                             coltrane_Link.url := ''http://example.org/''\<rparr>,
           [sample_link_saved,
            sample_link_saved\<lparr>coltrane_Link.id := Some 2,
                              coltrane_Link.url := ''http://example.org/''\<rparr>]))"
  by (simp add: save_eval sample_eval old_link_eval sample_slug_taken_def numeral_2_eq_2)

text \<open>
  C5 (as amended).  For every \<^verbatim>\<open>Link\<close> (of either file), where the library of the
  bookmarking service can be imported: a save calls the service at most once, and exactly
  when the link has no key yet and \<^verbatim>\<open>post_elsewhere\<close> is set; the outcome of the save does
  not depend on what the service does, so a failing post is swallowed and does not keep the
  link from being persisted; a link that a successful save returned has a key, so no later
  save of it posts again; and a save that posted and succeeded has created a new row.
\<close>

theorem post_only_on_creation:
  "fst (Link_save (Some post) m p conf l db) =
     (if \<not> pk_set (Link.id l) \<and> Link.post_elsewhere l
      then [(DELICIOUS_USER conf, DELICIOUS_PASSWORD conf, Link.url l, Link.title l,
             Link.tag_list l)]
      else [])
   \<and> snd (Link_save (Some post) m p conf l db) = snd (Link_save (Some post') m p conf l db)
   \<and> (snd (Link_save (Some post) m p conf l db) = Inr (l1, db1) \<longrightarrow>
        stored_as Link.id l1 (link_table db1) \<and>
        (Link.id l' = Link.id l1 \<longrightarrow> fst (Link_save lib' m' p' conf' l' db') = []))
   \<and> (fst (Link_save (Some post) m p conf l db) \<noteq> [] \<longrightarrow>
        snd (Link_save (Some post) m p conf l db) = Inr (l1, db1) \<longrightarrow>
        link_table db1 = link_table db @ [l1] \<and>
        (\<forall>r\<in>set (link_table db). Link.id r \<noteq> Link.id l1))
   \<and> fst (coltrane_Link_save (Some post) m sm conf c tbl) =
     (if \<not> pk_set (coltrane_Link.id c) \<and> coltrane_Link.post_elsewhere c
      then [(DELICIOUS_USER conf, DELICIOUS_PASSWORD conf, sm (coltrane_Link.url c),
             sm (coltrane_Link.title c), Some (sm (coltrane_Link.tags c)))]
      else [])
   \<and> snd (coltrane_Link_save (Some post) m sm conf c tbl) =
       snd (coltrane_Link_save (Some post') m sm conf c tbl)
   \<and> (snd (coltrane_Link_save (Some post) m sm conf c tbl) = Inr (c1, tbl1) \<longrightarrow>
        stored_as coltrane_Link.id c1 tbl1 \<and>
        (coltrane_Link.id c' = coltrane_Link.id c1 \<longrightarrow>
           fst (coltrane_Link_save lib' m' sm' conf' c' tbl') = []))
   \<and> (fst (coltrane_Link_save (Some post) m sm conf c tbl) \<noteq> [] \<longrightarrow>
        snd (coltrane_Link_save (Some post) m sm conf c tbl) = Inr (c1, tbl1) \<longrightarrow>
        tbl1 = tbl @ [c1] \<and> (\<forall>r\<in>set tbl. coltrane_Link.id r \<noteq> coltrane_Link.id c1))"
proof (intro conjI impI)
  show "fst (Link_save (Some post) m p conf l db) =
     (if \<not> pk_set (Link.id l) \<and> Link.post_elsewhere l
      then [(DELICIOUS_USER conf, DELICIOUS_PASSWORD conf, Link.url l, Link.title l,
             Link.tag_list l)]
      else [])"
    by (simp add: Link_save_posts)
  show "snd (Link_save (Some post) m p conf l db) = snd (Link_save (Some post') m p conf l db)"
    by (simp add: Link_save_outcome)
  show "fst (coltrane_Link_save (Some post) m sm conf c tbl) =
     (if \<not> pk_set (coltrane_Link.id c) \<and> coltrane_Link.post_elsewhere c
      then [(DELICIOUS_USER conf, DELICIOUS_PASSWORD conf, sm (coltrane_Link.url c),
             sm (coltrane_Link.title c), Some (sm (coltrane_Link.tags c)))]
      else [])"
    by (simp add: coltrane_Link_save_posts)
  show "snd (coltrane_Link_save (Some post) m sm conf c tbl) =
       snd (coltrane_Link_save (Some post') m sm conf c tbl)"
    by (simp add: coltrane_Link_save_outcome)
next
  assume s: "snd (Link_save (Some post) m p conf l db) = Inr (l1, db1)"
  show "stored_as Link.id l1 (link_table db1)" using Link_save_result(3) [OF s] .
  assume "Link.id l' = Link.id l1"
  then show "fst (Link_save lib' m' p' conf' l' db') = []"
    using Link_save_result(4) [OF s] by (simp add: Link_save_posts)
next
  assume n: "fst (Link_save (Some post) m p conf l db) \<noteq> []"
    and s: "snd (Link_save (Some post) m p conf l db) = Inr (l1, db1)"
  from n have u: "\<not> pk_set (Link.id l)" by (simp add: Link_save_posts split: if_splits)
  from Link_save_result(6) [OF s u]
  show "link_table db1 = link_table db @ [l1]"
    and "\<forall>r\<in>set (link_table db). Link.id r \<noteq> Link.id l1" by simp_all
next
  assume s: "snd (coltrane_Link_save (Some post) m sm conf c tbl) = Inr (c1, tbl1)"
  show "stored_as coltrane_Link.id c1 tbl1" using coltrane_Link_save_result(3) [OF s] .
  assume "coltrane_Link.id c' = coltrane_Link.id c1"
  then show "fst (coltrane_Link_save lib' m' sm' conf' c' tbl') = []"
    using coltrane_Link_save_result(4) [OF s] by (simp add: coltrane_Link_save_posts)
next
  assume n: "fst (coltrane_Link_save (Some post) m sm conf c tbl) \<noteq> []"
    and s: "snd (coltrane_Link_save (Some post) m sm conf c tbl) = Inr (c1, tbl1)"
  from n have u: "\<not> pk_set (coltrane_Link.id c)"
    by (simp add: coltrane_Link_save_posts split: if_splits)
  from coltrane_Link_save_result(6) [OF s u]
  show "tbl1 = tbl @ [c1]" and "\<forall>r\<in>set tbl. coltrane_Link.id r \<noteq> coltrane_Link.id c1"
    by simp_all
qed

theorem post_only_on_creation_witness:
  "\<exists>l1 db1.
     Link_save (Some failing_service) sample_markup sample_parse_tags sample_settings
       sample_old_link sample_database =
       ([(''user'', ''secret'', ''http://example.com/'', ''A link'', None)], Inr (l1, db1)) \<and>
     link_table db1 = [l1] \<and> Link.id l1 = Some 1 \<and>
     stored_as Link.id l1 (link_table db1) \<and>
     fst (Link_save (Some failing_service) sample_markup sample_parse_tags sample_settings
            (l1\<lparr>Link.title := ''Another title''\<rparr>) db1) = [] \<and>
     coltrane_Link_save (Some failing_service) sample_markup (\<lambda>s. s) sample_settings
       sample_link [] =
       ([(''user'', ''secret'', ''http://example.com/'', ''A link'', Some ''t'')],
        Inr (sample_link_saved, [sample_link_saved])) \<and>
     stored_as coltrane_Link.id sample_link_saved [sample_link_saved] \<and>
     fst (coltrane_Link_save (Some failing_service) sample_markup (\<lambda>s. s) sample_settings
            (sample_link_saved\<lparr>coltrane_Link.title := ''Another title''\<rparr>)
            [sample_link_saved]) = []"
proof -
  obtain l1 db1 where s: "Link_save (Some failing_service) sample_markup sample_parse_tags
       sample_settings sample_old_link sample_database =
       ([(''user'', ''secret'', ''http://example.com/'', ''A link'', None)], Inr (l1, db1))"
    and t: "link_table db1 = [l1]" and i: "Link.id l1 = Some 1"
    by (simp add: save_eval sample_eval old_link_eval)
  have c: "coltrane_Link_save (Some failing_service) sample_markup (\<lambda>s. s) sample_settings
       sample_link [] =
       ([(''user'', ''secret'', ''http://example.com/'', ''A link'', Some ''t'')],
        Inr (sample_link_saved, [sample_link_saved]))"
    by (simp add: save_eval sample_eval)
  show ?thesis
    using post_only_on_creation [where post = failing_service and m = sample_markup
        and p = sample_parse_tags and conf = sample_settings and l = sample_old_link
        and db = sample_database and post' = failing_service and ?l1.0 = l1 and ?db1.0 = db1
        and l' = "l1\<lparr>Link.title := ''Another title''\<rparr>" and lib' = "Some failing_service"
        and m' = sample_markup and p' = sample_parse_tags and conf' = sample_settings
        and db' = db1 and sm = "\<lambda>s. s" and c = sample_link and tbl = "[]"
        and ?c1.0 = sample_link_saved and ?tbl1.0 = "[sample_link_saved]"
        and c' = "sample_link_saved\<lparr>coltrane_Link.title := ''Another title''\<rparr>"
        and sm' = "\<lambda>s. s" and tbl' = "[sample_link_saved]"] s t i c
    by auto
qed

subsection \<open>Uniqueness\<close>


text \<open>
  The constraint of \<^verbatim>\<open>src/models.py\<close> compares \<^verbatim>\<open>pub_date\<close> to the instant: a second link
  with the slug of a stored one, published the same day at another time under another
  \<^verbatim>\<open>url\<close>, is saved.
\<close>

lemma same_day_other_time_saved:
  "date_of 100 = date_of 200 \<and>
   (\<exists>l1 db1.
      snd (Link_save (Some failing_service) sample_markup sample_parse_tags sample_settings
             (sample_old_link\<lparr>Link.pub_date := 200, Link.url := ''http://example.org/''\<rparr>)
             (sample_database\<lparr>link_table := [sample_old_link\<lparr>Link.id := Some 1\<rparr>]\<rparr>)) =
        Inr (l1, db1) \<and>
      link_table db1 = [sample_old_link\<lparr>Link.id := Some 1\<rparr>, l1] \<and>
      Link.slug l1 = Link.slug sample_old_link)"
  by (simp add: date_of_def save_eval sample_eval old_link_eval)



subsection \<open>The manager's filters\<close>

text \<open>
  C7.  For every stored set of entries, \<^verbatim>\<open>live()\<close> returns exactly the entries whose status
  is Live (each as often as the table holds it), ordered by \<^verbatim>\<open>pub_date\<close> descending, and
  \<^verbatim>\<open>drafts()\<close> returns exactly the entries whose status is Draft; neither returns an entry
  of another status.
\<close>

theorem live_and_drafts:
  "set (live db) = {e \<in> set (entry_table db). Entry.status e = 1}
   \<and> mset (live db) = filter_mset (\<lambda>e. Entry.status e = 1) (mset (entry_table db))
   \<and> sorted_wrt (\<lambda>a b. Entry.pub_date b \<le> Entry.pub_date a) (live db)
   \<and> (\<forall>e\<in>set (live db). map_of ENTRY_STATUS_CHOICES (Entry.status e) = Some ''Live'')
   \<and> (\<forall>e\<in>set (drafts db). map_of ENTRY_STATUS_CHOICES (Entry.status e) = Some ''Draft'')
   \<and> set (drafts db) = {e \<in> set (entry_table db). Entry.status e = 2}"
proof (intro conjI)
  show "set (live db) = {e \<in> set (entry_table db). Entry.status e = 1}"
    by (auto simp: live_def set_order_by_pub_date_desc)
  show "mset (live db) = filter_mset (\<lambda>e. Entry.status e = 1) (mset (entry_table db))"
    by (simp add: live_def mset_order_by_pub_date_desc)
  show "sorted_wrt (\<lambda>a b. Entry.pub_date b \<le> Entry.pub_date a) (live db)"
    unfolding live_def by (rule sorted_order_by_pub_date_desc)
  show "\<forall>e\<in>set (live db). map_of ENTRY_STATUS_CHOICES (Entry.status e) = Some ''Live''"
    by (simp add: live_def set_order_by_pub_date_desc status_Live)
  show "\<forall>e\<in>set (drafts db). map_of ENTRY_STATUS_CHOICES (Entry.status e) = Some ''Draft''"
    by (simp add: drafts_def set_order_by_pub_date_desc status_Draft)
  show "set (drafts db) = {e \<in> set (entry_table db). Entry.status e = 2}"
    by (auto simp: drafts_def set_order_by_pub_date_desc)
qed

theorem live_and_drafts_witness:
  "live sample_entries = [entry_at 3 300 1, entry_at 1 100 1] \<and>
   drafts sample_entries = [entry_at 2 200 2] \<and>
   Entry.status (entry_at 3 300 1) = 1 \<and> Entry.status (entry_at 1 100 1) = 1 \<and>
   map_of ENTRY_STATUS_CHOICES (Entry.status (entry_at 2 200 2)) = Some ''Draft''"
proof -
  have l: "live sample_entries = [entry_at 3 300 1, entry_at 1 100 1]"
    by (simp add: live_def sample_entries_def entry_at_def Entry_init_def
        order_by_pub_date_desc_def sample_database_def)
  have d: "drafts sample_entries = [entry_at 2 200 2]"
    by (simp add: drafts_def sample_entries_def entry_at_def Entry_init_def
        order_by_pub_date_desc_def sample_database_def)
  show ?thesis
    using live_and_drafts [of sample_entries] l d
    by (simp add: status_Live)
qed

subsection \<open>Tags\<close>

text \<open>
  C9.  For every entry and link, setting the tags replaces the complete tag set: after
  \<^verbatim>\<open>set_tags\<close> with one list of labels and then with another, \<^verbatim>\<open>get_tags\<close> is the set of the
  second list; after \<^verbatim>\<open>["a", "b"]\<close> and then \<^verbatim>\<open>["c"]\<close> it is \<^verbatim>\<open>{"c"}\<close>.
\<close>

theorem set_tags_replaces:
  "Entry_get_tags e (Entry_set_tags e labels2 (Entry_set_tags e labels1 ts)) = set labels2
   \<and> Entry_get_tags e (Entry_set_tags e [''c''] (Entry_set_tags e [''a'', ''b''] ts)) = {''c''}
   \<and> Link_get_tags l (Link_set_tags l labels2 (Link_set_tags l labels1 ts)) = set labels2
   \<and> Link_get_tags l (Link_set_tags l [''c''] (Link_set_tags l [''a'', ''b''] ts)) = {''c''}"
  by (simp add: Entry_get_tags_def Entry_set_tags_def Link_get_tags_def Link_set_tags_def
      update_tags_def get_for_object_def)

subsection \<open>The default status\<close>

text \<open>
  C10.  An \<^verbatim>\<open>Entry\<close> created without a status has status Live (\<^verbatim>\<open>1\<close>, \<^verbatim>\<open>LIVE_STATUS\<close>), in
  both files.  Saved, it is stored with that status and (in \<^verbatim>\<open>src/models.py\<close>, which has
  the manager) returned by \<^verbatim>\<open>live()\<close>; an entry created with another status is not
  returned by \<^verbatim>\<open>live()\<close>.
\<close>

theorem status_defaults_to_live:
  "Entry.status (Entry_init today a s t b None) = 1
   \<and> map_of ENTRY_STATUS_CHOICES (Entry.status (Entry_init today a s t b None)) = Some ''Live''
   \<and> (Entry_save m p (Entry_init today a s t b None) db = Inr (e1, db1) \<longrightarrow>
        e1 \<in> set (live db1))
   \<and> (st \<noteq> 1 \<longrightarrow> Entry_save m p (Entry_init today a s t b (Some st)) db = Inr (e2, db2) \<longrightarrow>
        e2 \<notin> set (live db2))
   \<and> coltrane_Entry.status (coltrane_Entry_init today a s t b None) = LIVE_STATUS
   \<and> (coltrane_Entry_save m (coltrane_Entry_init today a s t b None) tbl = Inr (c1, tbl1) \<longrightarrow>
        coltrane_Entry.status c1 = LIVE_STATUS \<and> stored_as coltrane_Entry.id c1 tbl1)"
proof (intro conjI impI)
  show "Entry.status (Entry_init today a s t b None) = 1" by (simp add: Entry_init_def)
  then show "map_of ENTRY_STATUS_CHOICES (Entry.status (Entry_init today a s t b None)) = Some ''Live''"
    by (simp add: status_Live)
  show "coltrane_Entry.status (coltrane_Entry_init today a s t b None) = LIVE_STATUS"
    by (simp add: coltrane_Entry_init_def)
next
  assume s: "Entry_save m p (Entry_init today a s t b None) db = Inr (e1, db1)"
  from Entry_save_status [OF s] show "e1 \<in> set (live db1)"
    by (simp add: live_def set_order_by_pub_date_desc Entry_init_def)
next
  assume n: "st \<noteq> 1"
    and s: "Entry_save m p (Entry_init today a s t b (Some st)) db = Inr (e2, db2)"
  from Entry_save_status(1) [OF s] n show "e2 \<notin> set (live db2)"
    by (simp add: live_def set_order_by_pub_date_desc Entry_init_def)
next
  assume s: "coltrane_Entry_save m (coltrane_Entry_init today a s t b None) tbl = Inr (c1, tbl1)"
  from coltrane_Entry_save_status [OF s] show "coltrane_Entry.status c1 = LIVE_STATUS"
    by (simp add: coltrane_Entry_init_def)
  show "stored_as coltrane_Entry.id c1 tbl1" using coltrane_Entry_save_result(3) [OF s] .
qed

theorem status_defaults_to_live_witness:
  "\<exists>e1 db1 e2 db2.
     Entry_save sample_markup sample_parse_tags sample_old_entry sample_database = Inr (e1, db1) \<and>
     live db1 = [e1] \<and> Entry.status e1 = 1 \<and>
     Entry_save sample_markup sample_parse_tags
       (Entry_init 100 1 ''first-post'' ''First'' ''hello'' (Some 2)) sample_database =
       Inr (e2, db2) \<and>
     live db2 = [] \<and> drafts db2 = [e2] \<and>
     coltrane_Entry_save sample_markup
       (coltrane_Entry_init 100 1 ''first-post'' ''First'' ''hello'' None) [] =
       Inr (sample_entry_saved\<lparr>coltrane_Entry.excerpt := None, coltrane_Entry.excerpt_html := None\<rparr>,
            [sample_entry_saved\<lparr>coltrane_Entry.excerpt := None, coltrane_Entry.excerpt_html := None\<rparr>]) \<and>
     coltrane_Entry.status sample_entry_saved = LIVE_STATUS"
proof -
  obtain e1 db1 where s1: "Entry_save sample_markup sample_parse_tags sample_old_entry
       sample_database = Inr (e1, db1)" and l1: "live db1 = [e1]" and st1: "Entry.status e1 = 1"
    by (simp add: save_eval sample_old_entry_def live_def order_by_pub_date_desc_def)
  obtain e2 db2 where s2: "Entry_save sample_markup sample_parse_tags
       (Entry_init 100 1 ''first-post'' ''First'' ''hello'' (Some 2)) sample_database =
       Inr (e2, db2)" and l2: "live db2 = []" and d2: "drafts db2 = [e2]"
    by (simp add: save_eval live_def drafts_def order_by_pub_date_desc_def)
  have c: "coltrane_Entry_save sample_markup
       (coltrane_Entry_init 100 1 ''first-post'' ''First'' ''hello'' None) [] =
       Inr (sample_entry_saved\<lparr>coltrane_Entry.excerpt := None, coltrane_Entry.excerpt_html := None\<rparr>,
            [sample_entry_saved\<lparr>coltrane_Entry.excerpt := None, coltrane_Entry.excerpt_html := None\<rparr>])"
    by (simp add: save_eval sample_eval)
  show ?thesis
    using status_defaults_to_live [of 100 1 "''first-post''" "''First''" "''hello''"
        sample_markup sample_parse_tags sample_database e1 db1 2 e2 db2 "[]"
        "sample_entry_saved\<lparr>coltrane_Entry.excerpt := None, coltrane_Entry.excerpt_html := None\<rparr>"
        "[sample_entry_saved\<lparr>coltrane_Entry.excerpt := None, coltrane_Entry.excerpt_html := None\<rparr>]"]
      s1 l1 st1 s2 l2 d2 c
    by (auto simp: sample_old_entry_def sample_eval coltrane_Entry_init_def)
qed

subsection \<open>The ranking by comments\<close>

text \<open>
  What \<^verbatim>\<open>most_commented\<close> does, in general.  It raises \<^verbatim>\<open>KeyError\<close> exactly when one of the
  ranked rows it keeps has no entry; it returns when every public comment of the content
  type is on a stored entry; and a list it returns for \<open>0 \<le> num\<close> holds stored entries with
  distinct keys, as many as \<open>num\<close> allows, each with a public comment, in descending order
  of their counts, and no stored entry left out has more public comments than one returned.
\<close>

lemma score_query_rows:
  "(k, n) \<in> set (score_query tbl ctype) \<longleftrightarrow> n = public_count tbl ctype k \<and> 0 < n"
proof -
  define hits where "hits = filter (\<lambda>c. content_type_id c = ctype \<and> is_public c) tbl"
  have c: "length (filter (\<lambda>c. object_id c = i) hits) = public_count tbl ctype i" for i
    by (simp add: hits_def public_count_def conj_commute conj_left_commute)
  have m: "i \<in> object_id ` set hits \<longleftrightarrow> 0 < public_count tbl ctype i" for i
    unfolding c [symmetric] by (auto simp: length_greater_0_conv filter_empty_conv simp del: length_greater_0_conv)
  have "set (score_query tbl ctype) =
      (\<lambda>i. (i, public_count tbl ctype i)) ` (object_id ` set hits)"
    by (simp add: score_query_def Let_def hits_def [symmetric] c)
  then show ?thesis using m by auto
qed

lemma score_query_distinct: "distinct (map fst (score_query tbl ctype))"
proof -
  define hits where "hits = filter (\<lambda>c. content_type_id c = ctype \<and> is_public c) tbl"
  define rows where "rows = map (\<lambda>i. (i, length (filter (\<lambda>c. object_id c = i) hits)))
              (remdups (map object_id hits))"
  have "map fst rows = remdups (map object_id hits)" by (simp add: rows_def comp_def)
  then have d: "distinct (map fst rows)" by simp
  have "mset (map fst (sort_key (\<lambda>row. - int (snd row)) rows)) = mset (map fst rows)"
    by simp
  then have "distinct (map fst (sort_key (\<lambda>row. - int (snd row)) rows))"
    using d by (metis mset_eq_imp_distinct_iff)
  then show ?thesis by (simp add: score_query_def Let_def hits_def rows_def)
qed

lemma score_query_sorted: "sorted_wrt (\<lambda>a b. snd b \<le> snd a) (score_query tbl ctype)"
proof -
  have "sorted (map (\<lambda>row. - int (snd row)) (score_query tbl ctype))"
    unfolding score_query_def Let_def by (rule sorted_sort_key)
  then show ?thesis by (simp add: sorted_map)
qed

lemma getitems_Inr_iff: "getitems d ks = Inr es \<longleftrightarrow> map d ks = map Some es"
proof (induction ks arbitrary: es)
  case Nil
  then show ?case by auto
next
  case (Cons k ks)
  show ?case
  proof (cases "d k")
    case None
    then show ?thesis by auto
  next
    case (Some r)
    show ?thesis
    proof (cases "getitems d ks")
      case (Inl e)
      then have "\<not> (\<exists>rs. map d ks = map Some rs)" using Cons.IH by auto
      then show ?thesis using Some Inl by (cases es) auto
    next
      case (Inr rs)
      then have "map d ks = map Some rs" using Cons.IH by simp
      then show ?thesis using Some Inr by (cases es) auto
    qed
  qed
qed

lemma getitems_raises_iff: "getitems d ks = Inl KeyError \<longleftrightarrow> (\<exists>k\<in>set ks. d k = None)"
  by (induction ks) (auto split: option.splits sum.splits)

lemma getitems_error: "getitems d ks = Inl e \<Longrightarrow> e = KeyError"
  by (induction ks arbitrary: e) (auto split: option.splits sum.splits)

lemma set_map_filter_Some:
  "set (List.map_filter f xs) = {y. \<exists>x\<in>set xs. f x = Some y}"
  by (induction xs) (auto simp: List.map_filter_simps split: option.splits)

lemma in_bulk_Some:
  "in_bulk tbl ids k = Some e \<Longrightarrow> e \<in> set tbl \<and> Entry.id e = Some k \<and> k \<in> set ids"
  unfolding in_bulk_def
  by (auto dest!: map_of_SomeD simp: set_map_filter_Some split: option.splits if_splits)

lemma in_bulk_None_iff:
  "in_bulk tbl ids k = None \<longleftrightarrow> \<not> (k \<in> set ids \<and> (\<exists>e\<in>set tbl. Entry.id e = Some k))"
  unfolding in_bulk_def
  by (force simp: map_of_eq_None_iff set_map_filter_Some image_iff split: option.splits if_splits)

lemma most_commented_unfold:
  "most_commented db num free =
     getitems
       (in_bulk (entry_table db)
          (map fst (slice_to num (score_query (comments_of db free) (entry_content_type db)))))
       (map fst (slice_to num (score_query (comments_of db free) (entry_content_type db))))"
  by (simp add: most_commented_def comments_of_def Let_def)

lemma most_commented_raises_iff:
  "most_commented db num free = Inl KeyError \<longleftrightarrow>
     (\<exists>row\<in>set (slice_to num (score_query (comments_of db free) (entry_content_type db))).
        \<not> (\<exists>e\<in>set (entry_table db). Entry.id e = Some (fst row)))"
  unfolding most_commented_unfold getitems_raises_iff
  by (auto simp: in_bulk_None_iff)

lemma most_commented_returns:
  assumes "\<forall>c\<in>set (comments_of db free).
             content_type_id c = entry_content_type db \<and> is_public c \<longrightarrow>
             (\<exists>e\<in>set (entry_table db). Entry.id e = Some (object_id c))"
  shows "\<exists>es. most_commented db num free = Inr es"
proof (cases "most_commented db num free")
  case (Inr es)
  then show ?thesis by blast
next
  case (Inl err)
  then have "err = KeyError" unfolding most_commented_unfold by (rule getitems_error)
  with Inl have "most_commented db num free = Inl KeyError" by simp
  then obtain row where
    r: "row \<in> set (slice_to num (score_query (comments_of db free) (entry_content_type db)))"
    and n: "\<not> (\<exists>e\<in>set (entry_table db). Entry.id e = Some (fst row))"
    unfolding most_commented_raises_iff by blast
  from r have "row \<in> set (score_query (comments_of db free) (entry_content_type db))"
    by (auto simp: slice_to_def dest: in_set_takeD split: if_splits)
  then have "0 < public_count (comments_of db free) (entry_content_type db) (fst row)"
    using score_query_rows [of "fst row" "snd row"] by simp
  then obtain c where "c \<in> set (comments_of db free)"
    "content_type_id c = entry_content_type db" "is_public c" "object_id c = fst row"
    unfolding public_count_def by (auto simp: filter_empty_conv)
  with assms n have False by metis
  then show ?thesis ..
qed

lemma most_commented_ranked:
  assumes ok: "most_commented db num free = Inr es" and num: "0 \<le> num"
  shows "set es \<subseteq> set (entry_table db)"
    and "length es =
           min (nat num) (length (score_query (comments_of db free) (entry_content_type db)))"
    and "distinct (map Entry.id es)"
    and "sorted_wrt (\<lambda>a b. entry_count (comments_of db free) (entry_content_type db) b
                          \<le> entry_count (comments_of db free) (entry_content_type db) a) es"
    and "\<forall>e\<in>set es. 0 < entry_count (comments_of db free) (entry_content_type db) e"
    and "\<forall>x\<in>set (entry_table db). Entry.id x \<notin> set (map Entry.id es) \<longrightarrow>
           (\<forall>e\<in>set es. entry_count (comments_of db free) (entry_content_type db) x
                        \<le> entry_count (comments_of db free) (entry_content_type db) e)"
proof -
  define T where "T = comments_of db free"
  define c where "c = entry_content_type db"
  define rows where "rows = score_query T c"
  define top where "top = take (nat num) rows"
  have sl: "slice_to num rows = top" using num by (simp add: slice_to_def top_def)
  from ok have g: "map (in_bulk (entry_table db) (map fst top)) (map fst top) = map Some es"
    unfolding most_commented_unfold getitems_Inr_iff T_def [symmetric] c_def [symmetric]
      rows_def [symmetric] sl .
  then have len: "length es = length top" by (metis length_map)
  have nth: "in_bulk (entry_table db) (map fst top) (fst (top ! i)) = Some (es ! i)"
    if "i < length top" for i
    using that len arg_cong [OF g, of "\<lambda>xs. xs ! i"] by simp
  have row: "snd r = public_count T c (fst r) \<and> 0 < snd r" if "r \<in> set rows" for r
    using that score_query_rows [of "fst r" "snd r" T c] by (simp add: rows_def)
  have topsub: "set top \<subseteq> set rows" by (auto simp: top_def dest: in_set_takeD)
  have ids: "Entry.id (es ! i) = Some (fst (top ! i))" and mem: "es ! i \<in> set (entry_table db)"
    if "i < length top" for i
    using in_bulk_Some [OF nth [OF that]] by simp_all
  have cnt: "entry_count T c (es ! i) = snd (top ! i)" if "i < length top" for i
  proof -
    have "top ! i \<in> set rows" using topsub that by auto
    then show ?thesis using ids [OF that] row [of "top ! i"] by (simp add: entry_count_def)
  qed
  have idmap: "map Entry.id es = map (\<lambda>r. Some (fst r)) top"
    by (rule nth_equalityI) (simp_all add: len ids)
  have cntmap: "map (entry_count T c) es = map snd top"
    by (rule nth_equalityI) (simp_all add: len cnt)
  show "set es \<subseteq> set (entry_table db)"
    using mem len by (auto simp: in_set_conv_nth)
  show "length es = min (nat num) (length (score_query (comments_of db free) (entry_content_type db)))"
    using len by (simp add: top_def rows_def T_def c_def min.commute)
  have "distinct (map fst top)"
    using score_query_distinct [of T c] by (simp add: top_def rows_def take_map [symmetric] distinct_take)
  then have "distinct (map Some (map fst top))"
    by (subst distinct_map) (simp add: inj_on_def)
  then show "distinct (map Entry.id es)" by (simp add: idmap comp_def)
  have srt: "sorted_wrt (\<lambda>a b. snd b \<le> snd a) rows"
    unfolding rows_def by (rule score_query_sorted)
  then have "sorted_wrt (\<lambda>a b. snd b \<le> snd a) top"
    unfolding top_def by (rule sorted_wrt_take)
  then have "sorted_wrt (\<lambda>a b. b \<le> a) (map snd top)" by (simp add: sorted_wrt_map)
  then have "sorted_wrt (\<lambda>a b. b \<le> a) (map (entry_count T c) es)" by (simp add: cntmap)
  then show "sorted_wrt (\<lambda>a b. entry_count (comments_of db free) (entry_content_type db) b
                          \<le> entry_count (comments_of db free) (entry_content_type db) a) es"
    by (simp add: sorted_wrt_map T_def c_def)
  have pos: "0 < entry_count T c e" if "e \<in> set es" for e
  proof -
    from that obtain i where i: "i < length top" "e = es ! i"
      using len by (auto simp: in_set_conv_nth)
    then have "top ! i \<in> set rows" using topsub by auto
    from row [OF this] show ?thesis using cnt [OF i(1)] i by simp
  qed
  then show "\<forall>e\<in>set es. 0 < entry_count (comments_of db free) (entry_content_type db) e"
    by (simp add: T_def c_def)
  have dom: "entry_count T c x \<le> entry_count T c e"
    if x: "x \<in> set (entry_table db)" "Entry.id x \<notin> set (map Entry.id es)" and e: "e \<in> set es"
    for x e
  proof (cases "Entry.id x")
    case None
    then show ?thesis by (simp add: entry_count_def)
  next
    case (Some k)
    show ?thesis
    proof (cases "public_count T c k = 0")
      case True
      then show ?thesis using Some by (simp add: entry_count_def)
    next
      case False
      then have in_rows: "(k, public_count T c k) \<in> set rows"
        using score_query_rows [of k "public_count T c k" T c] by (simp add: rows_def)
      have "(k, public_count T c k) \<notin> set top"
        using x(2) Some by (force simp: idmap image_iff)
      moreover have "rows = top @ drop (nat num) rows" by (simp add: top_def)
      ultimately have d: "(k, public_count T c k) \<in> set (drop (nat num) rows)"
        using in_rows by (metis Un_iff set_append)
      from e obtain i where i: "i < length top" "e = es ! i"
        using len by (auto simp: in_set_conv_nth)
      have "sorted_wrt (\<lambda>a b. snd b \<le> snd a) (top @ drop (nat num) rows)"
        using srt by (simp add: top_def)
      then have "snd (k, public_count T c k) \<le> snd (top ! i)"
        using d i(1) unfolding sorted_wrt_append by (meson nth_mem)
      then show ?thesis using cnt [OF i(1)] i(2) Some by (simp add: entry_count_def)
    qed
  qed
  then show "\<forall>x\<in>set (entry_table db). Entry.id x \<notin> set (map Entry.id es) \<longrightarrow>
           (\<forall>e\<in>set es. entry_count (comments_of db free) (entry_content_type db) x
                        \<le> entry_count (comments_of db free) (entry_content_type db) e)"
    by (simp add: T_def c_def)
qed

text \<open>
  Entries 1, 2 and 3 with 5, 1 and 3 public comments (and 6 hidden ones on entry 2):
  \<^verbatim>\<open>most_commented(2)\<close> is entry 1, then entry 3.
\<close>

lemma most_commented_example:
  "most_commented sample_ranking 2 True = Inr [entry_at 1 100 1, entry_at 3 300 1]"
  by (simp add: ranking_eval eval_nat_numeral)

text \<open>
  C1, where the code departs from it.  The comment table holds one public comment on
  entry 1 and two on object 5, an entry that was deleted (comments are not deleted with
  their entry).  The query ranks object 5 first, \<^verbatim>\<open>in_bulk\<close> has no object for it, and
  \<^verbatim>\<open>entry_dict[entry_id]\<close> raises \<^verbatim>\<open>KeyError\<close>: \<^verbatim>\<open>most_commented(1)\<close> returns no list.
\<close>

theorem most_commented_orphan:
  "most_commented sample_orphan 1 True = Inl KeyError"
  by (simp add: ranking_eval eval_nat_numeral)

subsection \<open>The neighbours of an entry\<close>

text \<open>
  What \<^verbatim>\<open>get_next\<close> does, in general: an entry it returns is a stored live entry after
  \<open>self\<close>, and no live entry after \<open>self\<close> has an earlier \<^verbatim>\<open>pub_date\<close>; it raises
  \<^verbatim>\<open>DoesNotExist\<close> exactly when no live entry comes after \<open>self\<close>.
\<close>

lemma sort_key_head_least:
  assumes "sort_key f xs = r # rs"
  shows "r \<in> set xs" and "\<forall>x\<in>set xs. f r \<le> f x"
proof -
  have s: "set (r # rs) = set xs" using assms set_sort [of f xs] by simp
  then show "r \<in> set xs" by auto
  have "sorted (map f (r # rs))" using sorted_sort_key [of f xs] assms by simp
  then have "\<forall>x\<in>set (r # rs). f r \<le> f x" by auto
  then show "\<forall>x\<in>set xs. f r \<le> f x" unfolding s .
qed

lemma sort_key_Nil_iff: "sort_key f xs = [] \<longleftrightarrow> xs = []"
  using length_sort [of f xs] by (metis length_0_conv)

lemma get_next_returns:
  assumes "coltrane_Entry_get_next self tbl = Inr r"
  shows "r \<in> set tbl" and "coltrane_Entry.status r = LIVE_STATUS" and "later_than self r"
    and "\<forall>x\<in>set tbl. coltrane_Entry.status x = LIVE_STATUS \<and> later_than self x \<longrightarrow>
           coltrane_Entry.pub_date r \<le> coltrane_Entry.pub_date x"
proof -
  define c where "c = filter (\<lambda>x. coltrane_Entry.status x = LIVE_STATUS \<and> later_than self x) tbl"
  from assms obtain rs where
    q: "sort_key coltrane_Entry.pub_date (sort_key id_key c) = r # rs"
    unfolding coltrane_Entry_get_next_def coltrane_Entry_next_previous_helper_def
      get_next_or_previous_by_pub_date_def c_def later_than_def
    by (auto simp: Let_def split: list.splits)
  from sort_key_head_least [OF q] have m: "r \<in> set c"
    and l: "\<forall>x\<in>set c. coltrane_Entry.pub_date r \<le> coltrane_Entry.pub_date x" by simp_all
  from m show "r \<in> set tbl" "coltrane_Entry.status r = LIVE_STATUS" "later_than self r"
    by (simp_all add: c_def)
  from l show "\<forall>x\<in>set tbl. coltrane_Entry.status x = LIVE_STATUS \<and> later_than self x \<longrightarrow>
           coltrane_Entry.pub_date r \<le> coltrane_Entry.pub_date x"
    by (simp add: c_def)
qed

lemma get_next_raises_iff:
  "coltrane_Entry_get_next self tbl = Inl DoesNotExist \<longleftrightarrow>
     \<not> (\<exists>x\<in>set tbl. coltrane_Entry.status x = LIVE_STATUS \<and> later_than self x)"
proof -
  define c where "c = filter (\<lambda>x. coltrane_Entry.status x = LIVE_STATUS \<and> later_than self x) tbl"
  have "coltrane_Entry_get_next self tbl =
      (case sort_key coltrane_Entry.pub_date (sort_key id_key c) of
         [] \<Rightarrow> Inl DoesNotExist | r # rs \<Rightarrow> Inr r)"
    unfolding coltrane_Entry_get_next_def coltrane_Entry_next_previous_helper_def
      get_next_or_previous_by_pub_date_def c_def later_than_def
    by (simp add: Let_def)
  then have "coltrane_Entry_get_next self tbl = Inl DoesNotExist \<longleftrightarrow> c = []"
    by (cases "sort_key coltrane_Entry.pub_date (sort_key id_key c)")
       (simp_all add: sort_key_Nil_iff, metis list.distinct(1) sort_key_Nil_iff)
  then show ?thesis by (auto simp: c_def filter_empty_conv)
qed

text \<open>
  Entries at 100 (Live), 200 (Hidden) and 300 (Live): \<^verbatim>\<open>get_next\<close> of the first is the
  third, \<^verbatim>\<open>get_previous\<close> of the third is the first.
\<close>

lemma get_next_example:
  "coltrane_Entry_get_next (coltrane_entry_at 1 100 LIVE_STATUS) sample_timeline =
     Inr (coltrane_entry_at 3 300 LIVE_STATUS) \<and>
   coltrane_Entry_get_previous (coltrane_entry_at 3 300 LIVE_STATUS) sample_timeline =
     Inr (coltrane_entry_at 1 100 LIVE_STATUS)"
  by (simp add: timeline_eval)

text \<open>
  C6, where the code departs from it.  The docstrings of \<^verbatim>\<open>get_next\<close> and \<^verbatim>\<open>get_previous\<close>
  promise \<^verbatim>\<open>None\<close> when there is no such entry.  \<^verbatim>\<open>get_next_by_pub_date\<close> raises
  \<^verbatim>\<open>DoesNotExist\<close> then, and \<^verbatim>\<open>_next_previous_helper\<close> passes the exception on: for the
  latest live entry \<^verbatim>\<open>get_next\<close> raises, and so does \<^verbatim>\<open>get_previous\<close> for the earliest.
\<close>

theorem get_next_of_latest:
  "coltrane_Entry_get_next (coltrane_entry_at 3 300 LIVE_STATUS) sample_timeline =
     Inl DoesNotExist \<and>
   coltrane_Entry_get_previous (coltrane_entry_at 1 100 LIVE_STATUS) sample_timeline =
     Inl DoesNotExist"
  by (simp add: timeline_eval)

end
